theory Spec2Isabelle
  imports Complex_Main "HOL-Library.AList"
begin

text \<open>
  A shallow embedding of the apply and delete engine of the \<open>add-in\<close> tool
  (\<open>src/lib/index.js\<close>): the registry parser, the identifier resolver, the destination
  resolver, the token substitution, the JSON patch, the command sandbox and the two
  pipelines, each function under the name it has in the source.
\<close>

section \<open>Strings\<close>

text \<open>
  A JavaScript string is modelled as a \<^typ>\<open>string\<close>. The embedding covers ASCII text:
  the case mappings below change the letters \<open>a\<close> to \<open>z\<close> and \<open>A\<close> to \<open>Z\<close> only, and
  the white space removed by \<open>trim\<close> is tab, line feed, vertical tab, form feed,
  carriage return and space.
\<close>

definition lowerLetters :: string where
  "lowerLetters = ''abcdefghijklmnopqrstuvwxyz''"

definition upperLetters :: string where
  "upperLetters = ''ABCDEFGHIJKLMNOPQRSTUVWXYZ''"

definition toUpperChar :: "char \<Rightarrow> char" where
  "toUpperChar c = (case map_of (zip lowerLetters upperLetters) c of Some u \<Rightarrow> u | None \<Rightarrow> c)"

definition toLowerChar :: "char \<Rightarrow> char" where
  "toLowerChar c = (case map_of (zip upperLetters lowerLetters) c of Some l \<Rightarrow> l | None \<Rightarrow> c)"

definition toUpperCase :: "string \<Rightarrow> string" where
  "toUpperCase s = map toUpperChar s"

definition toLowerCase :: "string \<Rightarrow> string" where
  "toLowerCase s = map toLowerChar s"

definition isSpace :: "char \<Rightarrow> bool" where
  "isSpace c = (c \<in> set [CHR 0x09, CHR 0x0A, CHR 0x0B, CHR 0x0C, CHR 0x0D, CHR '' ''])"

definition trim :: "string \<Rightarrow> string" where
  "trim s = rev (dropWhile isSpace (rev (dropWhile isSpace s)))"

definition startsWith :: "string \<Rightarrow> string \<Rightarrow> bool" where
  "startsWith s p = (take (length p) s = p)"

definition endsWith :: "string \<Rightarrow> string \<Rightarrow> bool" where
  "endsWith s p = startsWith (rev s) (rev p)"

text \<open>\<open>s.includes(p)\<close>: \<open>p\<close> occurs in \<open>s\<close> at some position.\<close>

fun includesStr :: "string \<Rightarrow> string \<Rightarrow> bool" where
  "includesStr [] p = (p = [])"
| "includesStr (c # cs) p = (startsWith (c # cs) p \<or> includesStr cs p)"

text \<open>\<open>s.slice(0, -n)\<close>.\<close>

definition dropEnd :: "nat \<Rightarrow> string \<Rightarrow> string" where
  "dropEnd n s = take (length s - n) s"

text \<open>
  The replacement text of \<open>String.prototype.replace\<close> is a template: \<open>$$\<close> stands for a
  dollar sign, \<open>$&\<close> for the matched text, \<open>$`\<close> for the text before the match and \<open>$'\<close>
  for the text after it. The patterns of this program have no capture group, so \<open>$1\<close> and
  the like stay as they are. \<open>m\<close> is the match, \<open>b\<close> the text before it, \<open>a\<close> the text
  after it.
\<close>

fun expandReplacement :: "string \<Rightarrow> string \<Rightarrow> string \<Rightarrow> string \<Rightarrow> string" where
  "expandReplacement [] m b a = []"
| "expandReplacement [c] m b a = [c]"
| "expandReplacement (c # d # ds) m b a =
     (if c = CHR ''$'' \<and> d = CHR ''$'' then CHR ''$'' # expandReplacement ds m b a
      else if c = CHR ''$'' \<and> d = CHR ''&'' then m @ expandReplacement ds m b a
      else if c = CHR ''$'' \<and> d = CHR 0x60 then b @ expandReplacement ds m b a
      else if c = CHR ''$'' \<and> d = CHR 0x27 then a @ expandReplacement ds m b a
      else c # expandReplacement (d # ds) m b a)"

text \<open>
  \<open>s.replace(/pat/g, rep)\<close> for a pattern that is a literal text: the matches are found
  from left to right and do not overlap. \<open>pre\<close> is the text already passed, reversed.
\<close>

fun replaceGo :: "string \<Rightarrow> string \<Rightarrow> string \<Rightarrow> string \<Rightarrow> string" where
  "replaceGo pat rep pre [] = []"
| "replaceGo pat rep pre (c # cs) =
     (if pat \<noteq> [] \<and> startsWith (c # cs) pat
      then expandReplacement rep pat (rev pre) (drop (length pat) (c # cs))
           @ replaceGo pat rep (rev pat @ pre) (drop (length pat) (c # cs))
      else c # replaceGo pat rep (c # pre) cs)"

definition replaceAll :: "string \<Rightarrow> string \<Rightarrow> string \<Rightarrow> string" where
  "replaceAll pat rep s = replaceGo pat rep [] s"

text \<open>\<open>s.replace(pat, rep)\<close> for a string \<open>pat\<close>: the first occurrence only.\<close>

fun replaceFirstGo :: "string \<Rightarrow> string \<Rightarrow> string \<Rightarrow> string \<Rightarrow> string" where
  "replaceFirstGo pat rep pre [] = (if pat = [] then expandReplacement rep [] (rev pre) [] else [])"
| "replaceFirstGo pat rep pre (c # cs) =
     (if startsWith (c # cs) pat
      then expandReplacement rep pat (rev pre) (drop (length pat) (c # cs))
           @ drop (length pat) (c # cs)
      else c # replaceFirstGo pat rep (c # pre) cs)"

definition replaceFirst :: "string \<Rightarrow> string \<Rightarrow> string \<Rightarrow> string" where
  "replaceFirst pat rep s = replaceFirstGo pat rep [] s"

text \<open>
  \<open>s.split(sep)\<close> for a string \<open>sep\<close>; an empty separator splits into the single
  characters.
\<close>

fun splitGo :: "string \<Rightarrow> string \<Rightarrow> string \<Rightarrow> string list" where
  "splitGo sep acc [] = [rev acc]"
| "splitGo sep acc (c # cs) =
     (if sep \<noteq> [] \<and> startsWith (c # cs) sep
      then rev acc # splitGo sep [] (drop (length sep) (c # cs))
      else splitGo sep (c # acc) cs)"

definition splitStr :: "string \<Rightarrow> string \<Rightarrow> string list" where
  "splitStr s sep = (if sep = [] then map (\<lambda>c. [c]) s else splitGo sep [] s)"

text \<open>\<open>s.split(re)\<close> for a regular expression that is one character class.\<close>

fun splitOn :: "(char \<Rightarrow> bool) \<Rightarrow> string \<Rightarrow> string \<Rightarrow> string list" where
  "splitOn P acc [] = [rev acc]"
| "splitOn P acc (c # cs) =
     (if P c then rev acc # splitOn P [] cs else splitOn P (c # acc) cs)"

fun join :: "string \<Rightarrow> string list \<Rightarrow> string" where
  "join sep [] = []"
| "join sep [x] = x"
| "join sep (x # y # ys) = x @ sep @ join sep (y # ys)"

section \<open>Case transforms of the project name\<close>

definition isLowerAZ :: "char \<Rightarrow> bool" where
  "isLowerAZ c = (c \<in> set lowerLetters)"

definition isUpperAZ :: "char \<Rightarrow> bool" where
  "isUpperAZ c = (c \<in> set upperLetters)"

text \<open>\<open>replace(/([a-z])([A-Z])/g, '$1-$2')\<close>: a match takes both letters.\<close>

fun kebabGo :: "string \<Rightarrow> string" where
  "kebabGo (a # b # cs) =
     (if isLowerAZ a \<and> isUpperAZ b then a # CHR ''-'' # b # kebabGo cs
      else a # kebabGo (b # cs))"
| "kebabGo cs = cs"

definition camelToKebab :: "string \<Rightarrow> string" where
  "camelToKebab str = toLowerCase (kebabGo str)"

text \<open>The body of the loop of \<open>splitPascalCase\<close> at index \<open>i\<close>: what it appends.\<close>

definition splitPascalStep :: "string \<Rightarrow> nat \<Rightarrow> string" where
  "splitPascalStep input i =
     (let char = input ! i in
      (if (char = toUpperChar char \<and> char \<noteq> toLowerChar char)
          \<and> ((i > 1 \<and> input ! (i - 1) \<noteq> toUpperChar (input ! (i - 1)))
               \<or> (i + 1 < length input \<and> input ! (i + 1) \<noteq> toUpperChar (input ! (i + 1))))
       then '' '' else []) @ [char])"

definition splitPascalCase :: "string \<Rightarrow> string" where
  "splitPascalCase input =
     (if input = [] then input
      else trim (concat (map (splitPascalStep input) [0 ..< length input])))"

definition sepChars :: string where
  "sepChars = '' -+_''"

text \<open>\<open>w.charAt(0).toUpperCase() + w.slice(1)\<close>.\<close>

definition capitalize :: "string \<Rightarrow> string" where
  "capitalize w = toUpperCase (take 1 w) @ drop 1 w"

text \<open>
  \<open>sanitizeProjectName\<close>: \<open>None\<close> is \<open>null\<close>. A \<open>null\<close> or empty name gives \<open>null\<close>.
\<close>

definition sanitizeProjectName :: "string option \<Rightarrow> string option" where
  "sanitizeProjectName name =
     (case name of
        None \<Rightarrow> None
      | Some n \<Rightarrow>
          if n = [] then None
          else if \<not> list_ex (\<lambda>c. includesStr n [c]) sepChars then Some n
          else Some (join [] (map capitalize
                 (filter (\<lambda>w. w \<noteq> []) (splitOn (\<lambda>c. c \<in> set sepChars) [] n)))))"

section \<open>Token substitution\<close>

text \<open>
  The six placeholder replacements of \<open>replaceMyApp\<close>, in the order of the source; each
  works on the result of the one before.
\<close>

definition placeholders :: "string list" where
  "placeholders = [''My_App'', ''MyApp'', ''My App'', ''my-app'', ''myapp'', ''my_app'']"

definition replacePlaceholders :: "string \<Rightarrow> string \<Rightarrow> string" where
  "replacePlaceholders input projName =
     (let condensed = replaceAll ''_'' [] projName;
          kebab = camelToKebab condensed;
          split = splitPascalCase condensed
      in replaceAll ''my_app'' (toLowerCase projName)
          (replaceAll ''myapp'' (toLowerCase condensed)
            (replaceAll ''my-app'' kebab
              (replaceAll ''My App'' split
                (replaceAll ''MyApp'' condensed
                  (replaceAll ''My_App'' projName input))))))"

text \<open>\<open>for (const [term, replacement] of replaceTokens) result = result.split(term).join(replacement)\<close>.\<close>

fun applyReplaceTokens :: "(string \<times> string) list \<Rightarrow> string \<Rightarrow> string" where
  "applyReplaceTokens [] result = result"
| "applyReplaceTokens ((term, replacement) # ts) result =
     applyReplaceTokens ts (join replacement (splitStr result term))"

text \<open>
  \<open>replaceMyApp\<close>. \<open>win32\<close> is \<open>process.platform === 'win32'\<close>, \<open>tokens\<close> the module's
  \<open>replaceTokens\<close>. A \<open>null\<close> or empty project name, or an empty input, returns the input.
\<close>

definition replaceMyApp :: "bool \<Rightarrow> (string \<times> string) list \<Rightarrow> string \<Rightarrow> string option \<Rightarrow> string" where
  "replaceMyApp win32 tokens input projName =
     (case projName of
        None \<Rightarrow> input
      | Some p \<Rightarrow>
          if input = [] \<or> p = [] then input
          else
            let result = replacePlaceholders input p;
                result = (if \<not> win32 then replaceAll [CHR 0x0D] [] result else result)
            in applyReplaceTokens tokens result)"








section \<open>Registry parser\<close>

text \<open>\<open>s.indexOf(p, from)\<close>: the position of the first occurrence at or after \<open>from\<close>, or \<open>-1\<close>.\<close>

fun indexOfGo :: "string \<Rightarrow> string \<Rightarrow> nat \<Rightarrow> int" where
  "indexOfGo [] p i = (if p = [] then int i else - 1)"
| "indexOfGo (c # cs) p i = (if startsWith (c # cs) p then int i else indexOfGo cs p (Suc i))"

definition indexOf :: "string \<Rightarrow> string \<Rightarrow> nat \<Rightarrow> int" where
  "indexOf s p from = indexOfGo (drop from s) p (min from (length s))"

text \<open>\<open>s.substring(a, b)\<close> for \<open>a \<le> b\<close>, and \<open>xs[i]\<close> with \<open>None\<close> for \<open>undefined\<close>.\<close>

definition substring :: "string \<Rightarrow> nat \<Rightarrow> nat \<Rightarrow> string" where
  "substring s a b = take (b - a) (drop a s)"

definition nthOpt :: "'a list \<Rightarrow> nat \<Rightarrow> 'a option" where
  "nthOpt xs i = (if i < length xs then Some (xs ! i) else None)"

record gistLink =
  linkName :: string
  linkUrl :: string
  linkUser :: "string option"
  linkTo :: "string option"
  linkDescription :: string
  linkTags :: "string list option"
  linkGistId :: "string option"
  linkRepo :: "string option"
  linkModifiers :: "(string \<times> string) list"

text \<open>
  The regular expression \<open>- \[([^\]]+)\]\(([^)]+)\)\<close> at the start of \<open>s\<close>: the name, the
  URL and the length of the match. Each class is followed by the one character it
  excludes, so only its longest run can match.
\<close>

definition matchLinkAt :: "string \<Rightarrow> (string \<times> string \<times> nat) option" where
  "matchLinkAt s =
     (if startsWith s ''- [''
      then let r1 = drop 3 s;
               name = takeWhile (\<lambda>c. c \<noteq> CHR '']'') r1;
               r2 = dropWhile (\<lambda>c. c \<noteq> CHR '']'') r1
           in if name \<noteq> [] \<and> startsWith r2 ''](''
              then let r3 = drop 2 r2;
                       url = takeWhile (\<lambda>c. c \<noteq> CHR '')'') r3;
                       r4 = dropWhile (\<lambda>c. c \<noteq> CHR '')'') r3
                   in if url \<noteq> [] \<and> startsWith r4 '')''
                      then Some (name, url, 3 + length name + 2 + length url + 1)
                      else None
              else None
      else None)"

text \<open>\<open>trimmed.match(re)\<close>: the leftmost position where the expression matches.\<close>

fun matchLink :: "string \<Rightarrow> (string \<times> string \<times> nat) option" where
  "matchLink [] = matchLinkAt []"
| "matchLink (c # cs) =
     (case matchLinkAt (c # cs) of Some m \<Rightarrow> Some m | None \<Rightarrow> matchLink cs)"

definition isWordChar :: "char \<Rightarrow> bool" where
  "isWordChar c = (c \<in> set lowerLetters \<or> c \<in> set upperLetters \<or> c \<in> set ''0123456789_'')"

text \<open>
  The value of a modifier, \<open>"([^"]+)"|'([^']+)'|([^\s,}]+)\<close>, at the start of \<open>v\<close>: the
  group that matched and the length of the match. The alternatives are tried in order.
\<close>

definition quotedAt :: "char \<Rightarrow> string \<Rightarrow> (string \<times> nat) option" where
  "quotedAt q v =
     (case v of
        [] \<Rightarrow> None
      | c # cs \<Rightarrow>
          let run = takeWhile (\<lambda>d. d \<noteq> q) cs
          in if c = q \<and> run \<noteq> [] \<and> startsWith (dropWhile (\<lambda>d. d \<noteq> q) cs) [q]
             then Some (run, length run + 2) else None)"

definition modValueAt :: "string \<Rightarrow> (string \<times> nat) option" where
  "modValueAt v =
     (case quotedAt CHR 0x22 v of
        Some r \<Rightarrow> Some r
      | None \<Rightarrow>
          (case quotedAt CHR 0x27 v of
             Some r \<Rightarrow> Some r
           | None \<Rightarrow>
               let run = takeWhile (\<lambda>c. \<not> isSpace c \<and> c \<noteq> CHR '','' \<and> c \<noteq> CHR ''}'') v
               in if run \<noteq> [] then Some (run, length run) else None))"

text \<open>\<open>(\w+):(?:...)\<close> at the start of \<open>s\<close>: key, value and length of the match.\<close>

definition modifierAt :: "string \<Rightarrow> (string \<times> string \<times> nat) option" where
  "modifierAt s =
     (let key = takeWhile isWordChar s; r = dropWhile isWordChar s
      in if key \<noteq> [] \<and> startsWith r '':''
         then (case modValueAt (drop 1 r) of
                 Some (v, n) \<Rightarrow> Some (key, v, length key + 1 + n)
               | None \<Rightarrow> None)
         else None)"

text \<open>
  \<open>modStr.matchAll(re)\<close>: all matches from left to right, without overlap. \<open>k\<close> counts
  the characters of the last match that are still to be passed.
\<close>

fun modifierMatches :: "nat \<Rightarrow> string \<Rightarrow> (string \<times> string) list" where
  "modifierMatches k [] = []"
| "modifierMatches k (c # cs) =
     (if k > 0 then modifierMatches (k - 1) cs
      else (case modifierAt (c # cs) of
              Some (key, v, n) \<Rightarrow> (key, v) # modifierMatches (n - 1) cs
            | None \<Rightarrow> modifierMatches 0 cs))"

text \<open>
  \<open>modifiers[match[1]] = ...\<close> for each match in turn: a later value replaces an earlier
  one. Assigning a string to \<open>__proto__\<close> adds no property.
\<close>

fun setModifiers :: "(string \<times> string) list \<Rightarrow> (string \<times> string) list \<Rightarrow> (string \<times> string) list" where
  "setModifiers modifiers [] = modifiers"
| "setModifiers modifiers ((key, v) # ms) =
     setModifiers (if key = ''__proto__'' then modifiers else AList.update key v modifiers) ms"

text \<open>The modifier block: the modifiers and the text that remains.\<close>

definition parseModifiers :: "string \<Rightarrow> (string \<times> string) list \<times> string" where
  "parseModifiers remaining =
     (if startsWith remaining ''{''
      then let endBrace = indexOf remaining ''}'' 0
           in if endBrace > 0
              then let modStr = substring remaining 1 (nat endBrace)
                   in (setModifiers [] (modifierMatches 0 modStr),
                       trim (drop (nat endBrace + 1) remaining))
              else ([], remaining)
      else ([], remaining))"

text \<open>The tag block: the tags (\<open>None\<close> is \<open>null\<close>) and the text that remains.\<close>

definition parseTags :: "string \<Rightarrow> string list option \<times> string" where
  "parseTags remaining =
     (if startsWith remaining [CHR 0x60]
      then let endTick = indexOf remaining [CHR 0x60] 1
           in if endTick > 0
              then let tagStr = substring remaining 1 (nat endTick)
                   in (Some (filter (\<lambda>t. t \<noteq> []) (map trim (splitStr tagStr '',''))),
                       trim (drop (nat endTick + 1) remaining))
              else (None, remaining)
      else (None, remaining))"

text \<open>
  The user of a URL, before the branch on the kind of URL: the second segment after
  \<open>https://\<close>, with the two legacy handles rewritten; \<open>None\<close> is \<open>undefined\<close>.
\<close>

definition urlUser :: "string \<Rightarrow> string option" where
  "urlUser url =
     (let user = (if startsWith url ''https://''
                  then nthOpt (splitStr (drop (length ''https://'') url) ''/'') 1
                  else Some [])
      in if user = Some ''gistlyn'' \<or> user = Some ''mythz'' then Some ''ServiceStack'' else user)"

definition parseGistLink :: "string \<Rightarrow> gistLink option" where
  "parseGistLink line =
     (let trimmed = trim line in
      if \<not> startsWith trimmed ''- ['' then None
      else
        (case matchLink trimmed of
           None \<Rightarrow> None
         | Some (name, url, matchLength) \<Rightarrow>
             let remaining = trim (drop matchLength trimmed);
                 (modifiers, remaining) = parseModifiers remaining;
                 (tags, remaining) = parseTags remaining;
                 description = remaining;
                 user = urlUser url;
                 parts = splitStr (drop (length ''https://github.com/'') url) ''/''
             in Some
                 \<lparr> linkName = name,
                   linkUrl = url,
                   linkUser =
                     (if startsWith url ''https://gist.github.com'' then user
                      else if startsWith url ''https://github.com/'' then nthOpt parts 0
                      else user),
                   linkTo = map_of modifiers ''to'',
                   linkDescription = description,
                   linkTags = tags,
                   linkGistId =
                     (if startsWith url ''https://gist.github.com''
                      then Some (last (splitStr url ''/'')) else None),
                   linkRepo =
                     (if startsWith url ''https://gist.github.com'' then None
                      else if startsWith url ''https://github.com/''
                      then map_option (\<lambda>p. hd (splitStr p ''/'')) (nthOpt parts 1)
                      else None),
                   linkModifiers = modifiers \<rparr>))"

text \<open>\<open>parseGistLinks\<close>: one record for each line that parses, in the order of the lines.\<close>

definition parseGistLinks :: "string \<Rightarrow> gistLink list" where
  "parseGistLinks md =
     (if md = [] then [] else List.map_filter parseGistLink (splitStr md [CHR 0x0A]))"




text \<open>
  For the statement of the user normalization: the author segment of a URL, the second
  segment after \<open>https://\<close>.
\<close>

definition authorSegment :: "string \<Rightarrow> string option" where
  "authorSegment url = nthOpt (splitStr (drop (length ''https://'') url) ''/'') 1"

section \<open>Host, configuration and file system\<close>

text \<open>
  What the program takes from Node and from the network is a parameter of the model:
  the platform test, the working and the home directory, the functions of the \<open>path\<close>
  module, the construction of a regular expression from a text (\<open>None\<close> when
  \<open>new RegExp\<close> throws), \<open>JSON.parse\<close> (\<open>None\<close> when it throws) and \<open>JSON.stringify\<close>,
  \<open>decodeURIComponent\<close> (\<open>None\<close> when it throws), the decoding of base64, the fetch of
  a bundle (\<open>getGistFiles\<close>, with its URL), the answer of the user to a prompt, and
  what a spawned tool does to the file system, with whether \<open>spawnSync\<close> reports an
  error. The runtime itself is a parameter as well: the built-in objects that exist when
  a JSON patch is applied (\<open>realm\<close>), among them the prototypes of the objects, the
  arrays, the strings, the numbers and the booleans, the length that the runtime makes
  of a value assigned to the \<open>length\<close> of an array, and the property key that it makes
  of a number or an object. The diagnostics that the program prints in verbose mode
  only are left out.
\<close>

datatype error =
    Error string
  | TypeError
  | SyntaxError
  | RangeError
  | URIError
  | SystemError string

datatype node = File string | Dir

type_synonym fs = "(string \<times> node) list"

text \<open>
  A number of the runtime: a double is a rational number or one of the two infinities
  (\<open>JSON.parse\<close> makes no \<open>NaN\<close>, and the program cannot tell the two zeros apart).
\<close>

datatype number = Finite rat | PlusInfinity | MinusInfinity

text \<open>
  A JSON document as \<open>JSON.parse\<close> reads it and as \<open>JSON.stringify\<close> prints it: the
  members of an object in the order of the text. \<open>JUndefined\<close> stands for a value that
  \<open>JSON.stringify\<close> finds \<open>undefined\<close>: it leaves such a member out and prints \<open>null\<close> for
  such an element.
\<close>

datatype json =
    JUndefined
  | JNull
  | JBool bool
  | JNum number
  | JStr string
  | JArr "json list"
  | JObj "(string \<times> json) list"

subsection \<open>Objects of the runtime\<close>

text \<open>
  \<open>patchJsonFile\<close> works on the objects that \<open>JSON.parse\<close> returns with \<open>in\<close>, with
  property reads, with assignments and with \<open>delete\<close>. What these do depends on the
  prototypes of the objects, so the objects are kept in a store, as the runtime has
  them: an object has a prototype, properties of its own in the order of their
  creation, and it may be an array (with its length) or a function. A property is a
  value with its attributes (writable, enumerable, configurable), or an accessor with
  its attribute (configurable); the accessors within reach of a patch are that of
  \<open>__proto__\<close> and the one that throws a \<open>TypeError\<close> (\<open>caller\<close> and \<open>arguments\<close> of
  \<open>Function.prototype\<close>).
\<close>

type_synonym ref = nat

datatype jsvalue =
    VUndefined
  | VNull
  | VBool bool
  | VNum number
  | VStr string
  | VObj ref

datatype accessor = ProtoAccessor | ThrowTypeError

datatype property =
    Data jsvalue bool bool bool
  | Accessor accessor bool

record jsobject =
  objProto :: "ref option"
  objArray :: "nat option"
  objCallable :: bool
  objProps :: "(string \<times> property) list"

type_synonym heap = "jsobject list"

record host =
  isWin32 :: bool
  cwd :: string
  homedir :: string
  pathResolve :: "string \<Rightarrow> string \<Rightarrow> string"
  pathDirname :: "string \<Rightarrow> string"
  pathJoin :: "string \<Rightarrow> string \<Rightarrow> string"
  pathBasename :: "string \<Rightarrow> string"
  regExp :: "string \<Rightarrow> (string \<Rightarrow> bool) option"
  jsonParse :: "string \<Rightarrow> json option"
  jsonStringify :: "json \<Rightarrow> string"
  realm :: heap
  objectPrototype :: ref
  arrayPrototype :: ref
  stringPrototype :: ref
  numberPrototype :: ref
  booleanPrototype :: ref
  toArrayLength :: "heap \<Rightarrow> jsvalue \<Rightarrow> error + nat"
  toPropertyKey :: "heap \<Rightarrow> jsvalue \<Rightarrow> error + string"
  decodeURIComponent :: "string \<Rightarrow> string option"
  base64Decode :: "string \<Rightarrow> string"
  getGistFiles :: "string \<Rightarrow> error + ((string \<times> string) list \<times> string)"
  promptAnswer :: bool
  spawnSync :: "string \<Rightarrow> string list \<Rightarrow> string \<Rightarrow> fs \<Rightarrow> fs \<times> bool"

text \<open>The global state of the module that the pipelines read.\<close>

record config =
  gistLinksId :: string
  silent :: bool
  forceApproval :: bool
  preserve :: bool
  outDir :: "string option"
  replaceTokens :: "(string \<times> string) list"

text \<open>What a pipeline prints and what it spawns, in order.\<close>

datatype event =
    Log string
  | PrintGistLinks
  | Spawn string "string list" string bool

definition sq :: string where
  "sq = [CHR 0x27]"

definition backslash :: string where
  "backslash = [CHR 0x5C]"

subsection \<open>File system\<close>

text \<open>
  The file system is a list of the paths that exist, each with its node: a file with
  its content, or a directory. The paths are the texts that the \<open>path\<close> module returns;
  the program passes no other text to \<open>fs\<close>.
\<close>

definition existsSync :: "fs \<Rightarrow> string \<Rightarrow> bool" where
  "existsSync fs p = (map_of fs p \<noteq> None)"

text \<open>
  \<open>fs.readdirSync(dir, { withFileTypes: true })\<close>: the name and the kind of each entry
  of \<open>dir\<close>; \<open>None\<close> when \<open>dir\<close> is not a directory (the call throws).
\<close>

definition readdirSync :: "host \<Rightarrow> fs \<Rightarrow> string \<Rightarrow> (string \<times> node) list option" where
  "readdirSync h fs dir =
     (if map_of fs dir = Some Dir
      then Some (map (\<lambda>(p, n). (pathBasename h p, n))
                  (filter (\<lambda>(p, n). p \<noteq> dir \<and> pathDirname h p = dir) fs))
      else None)"

definition readFileSync :: "fs \<Rightarrow> string \<Rightarrow> error + string" where
  "readFileSync fs p =
     (case map_of fs p of
        Some (File c) \<Rightarrow> Inr c
      | Some Dir \<Rightarrow> Inl (SystemError ''EISDIR'')
      | None \<Rightarrow> Inl (SystemError ''ENOENT''))"

definition writeFileSync :: "host \<Rightarrow> fs \<Rightarrow> string \<Rightarrow> string \<Rightarrow> error + fs" where
  "writeFileSync h fs p c =
     (if map_of fs p = Some Dir then Inl (SystemError ''EISDIR'')
      else if map_of fs (pathDirname h p) \<noteq> Some Dir then Inl (SystemError ''ENOENT'')
      else Inr (AList.update p (File c) fs))"

definition unlinkSync :: "fs \<Rightarrow> string \<Rightarrow> error + fs" where
  "unlinkSync fs p =
     (case map_of fs p of
        Some (File c) \<Rightarrow> Inr (AList.delete p fs)
      | Some Dir \<Rightarrow> Inl (SystemError ''EISDIR'')
      | None \<Rightarrow> Inl (SystemError ''ENOENT''))"

text \<open>
  \<open>fs.rmSync(p, { recursive: false })\<close>: Node refuses a directory when \<open>recursive\<close> is
  false.
\<close>

definition rmSync :: "fs \<Rightarrow> string \<Rightarrow> error + fs" where
  "rmSync fs p =
     (case map_of fs p of
        Some (File c) \<Rightarrow> Inr (AList.delete p fs)
      | Some Dir \<Rightarrow> Inl (SystemError ''ERR_FS_EISDIR'')
      | None \<Rightarrow> Inl (SystemError ''ENOENT''))"

text \<open>
  \<open>fs.mkdirSync(dir, { recursive: true })\<close>: \<open>dir\<close> and the directories above it, found by
  \<open>path.dirname\<close> until it returns its argument; a file in the way is an error.
\<close>

fun ancestors :: "host \<Rightarrow> nat \<Rightarrow> string \<Rightarrow> string list" where
  "ancestors h 0 dir = [dir]"
| "ancestors h (Suc n) dir =
     (if pathDirname h dir = dir then [dir] else ancestors h n (pathDirname h dir) @ [dir])"

fun mkdirs :: "fs \<Rightarrow> string list \<Rightarrow> error option \<times> fs" where
  "mkdirs fs [] = (None, fs)"
| "mkdirs fs (d # ds) =
     (case map_of fs d of
        Some (File c) \<Rightarrow> (Some (SystemError ''EEXIST''), fs)
      | Some Dir \<Rightarrow> mkdirs fs ds
      | None \<Rightarrow> mkdirs (fs @ [(d, Dir)]) ds)"

definition mkdirSync :: "host \<Rightarrow> fs \<Rightarrow> string \<Rightarrow> error option \<times> fs" where
  "mkdirSync h fs dir = mkdirs fs (ancestors h (length dir) dir)"

subsection \<open>Search in the project tree\<close>

definition skippedDirs :: "string list" where
  "skippedDirs = [''node_modules'', ''bin'', ''obj'']"

text \<open>
  The loop of \<open>findFiles\<close> over the entries of \<open>dir\<close>; \<open>sub\<close> is the search below a
  directory. When the pattern has a star and is no regular expression, \<open>new RegExp\<close>
  throws at the first file, and the \<open>catch\<close> returns what was found before.
\<close>

fun findFilesIn :: "host \<Rightarrow> (string \<Rightarrow> string list) \<Rightarrow> string \<Rightarrow> string \<Rightarrow> (string \<times> node) list \<Rightarrow> string list" where
  "findFilesIn h sub dir pattern [] = []"
| "findFilesIn h sub dir pattern ((name, kind) # entries) =
     (if startsWith name ''.'' then findFilesIn h sub dir pattern entries
      else
        let fullPath = pathJoin h dir name in
        (case kind of
           Dir \<Rightarrow>
             (if name \<notin> set skippedDirs then sub fullPath else [])
             @ findFilesIn h sub dir pattern entries
         | File c \<Rightarrow>
             if includesStr pattern ''*''
             then (case regExp h (''^'' @ replaceAll ''*'' ''.*'' pattern @ ''$'') of
                     None \<Rightarrow> []
                   | Some test \<Rightarrow>
                       (if test name then [fullPath] else [])
                       @ findFilesIn h sub dir pattern entries)
             else (if name = pattern then [fullPath] else [])
                  @ findFilesIn h sub dir pattern entries))"

fun findFiles :: "host \<Rightarrow> fs \<Rightarrow> nat \<Rightarrow> string \<Rightarrow> string \<Rightarrow> string list" where
  "findFiles h fs 0 dir pattern = []"
| "findFiles h fs (Suc maxDepth) dir pattern =
     (case readdirSync h fs dir of
        None \<Rightarrow> []
      | Some entries \<Rightarrow>
          findFilesIn h (\<lambda>fullPath. findFiles h fs maxDepth fullPath pattern) dir pattern entries)"

fun findDirectoriesIn :: "host \<Rightarrow> (string \<Rightarrow> string list) \<Rightarrow> string \<Rightarrow> string \<Rightarrow> (string \<times> node) list \<Rightarrow> string list" where
  "findDirectoriesIn h sub dir name [] = []"
| "findDirectoriesIn h sub dir name ((entry, kind) # entries) =
     (if startsWith entry ''.'' then findDirectoriesIn h sub dir name entries
      else
        (case kind of
           Dir \<Rightarrow>
             let fullPath = pathJoin h dir entry in
             (if entry = name then [fullPath] else [])
             @ (if entry \<notin> set skippedDirs then sub fullPath else [])
             @ findDirectoriesIn h sub dir name entries
         | File c \<Rightarrow> findDirectoriesIn h sub dir name entries))"

fun findDirectories :: "host \<Rightarrow> fs \<Rightarrow> nat \<Rightarrow> string \<Rightarrow> string \<Rightarrow> string list" where
  "findDirectories h fs 0 dir name = []"
| "findDirectories h fs (Suc maxDepth) dir name =
     (case readdirSync h fs dir of
        None \<Rightarrow> []
      | Some entries \<Rightarrow>
          findDirectoriesIn h (\<lambda>fullPath. findDirectories h fs maxDepth fullPath name) dir name entries)"

subsection \<open>Destination resolver\<close>

definition HOST_FILES :: "string list" where
  "HOST_FILES = [''appsettings.json'', ''Web.config'', ''App.config'', ''Startup.cs'',
                 ''Program.cs'', ''*.csproj'']"

text \<open>The loop over \<open>HOST_FILES\<close>: the directory of the first file found, if any.\<close>

fun findHost :: "host \<Rightarrow> fs \<Rightarrow> string list \<Rightarrow> string option" where
  "findHost h fs [] = None"
| "findHost h fs (hostFile # hostFiles) =
     (let files = findFiles h fs 10 (cwd h) hostFile
      in if length files > 0 then Some (pathDirname h (hd files)) else findHost h fs hostFiles)"

text \<open>
  \<open>resolveBasePath\<close>. \<open>None\<close> is an absent hint. \<open>Inl\<close> is the error thrown, with the
  message of the source.
\<close>

definition resolveBasePath :: "host \<Rightarrow> fs \<Rightarrow> string option \<Rightarrow> string \<Rightarrow> error + string" where
  "resolveBasePath h fs to exSuffix =
     (case to of
        None \<Rightarrow> Inr (cwd h)
      | Some t \<Rightarrow>
          if t = ''.'' \<or> t = [] then Inr (cwd h)
          else if includesStr t ''..''
          then Inl (Error (''Invalid location '' @ sq @ t @ sq @ exSuffix))
          else if startsWith t ''/''
          then (if isWin32 h
                then Inl (Error (''Cannot write to '' @ sq @ t @ sq @ '' on Windows'' @ exSuffix))
                else Inr t)
          else if includesStr t ('':'' @ backslash)
          then (if \<not> isWin32 h
                then Inl (Error (''Cannot write to '' @ sq @ t @ sq @ exSuffix))
                else Inr t)
          else if startsWith t ''$''
          then (if startsWith t ''$HOST''
                then (case findHost h fs HOST_FILES of
                        Some dir \<Rightarrow> Inr dir
                      | None \<Rightarrow>
                          Inl (Error (''Couldn'' @ sq
                            @ ''t find host project location containing any of ''
                            @ join '', '' HOST_FILES @ exSuffix)))
                else if startsWith t ''$HOME''
                then Inr (replaceFirst ''$HOME'' (homedir h) t)
                else Inl (Error (''Unknown location '' @ sq @ t @ sq @ exSuffix)))
          else if endsWith t ''/''
          then (let dirName = dropEnd 1 t;
                    dirs = findDirectories h fs 10 (cwd h) dirName
                in if length dirs = 0
                   then Inl (Error (''Unable to find Directory named '' @ sq @ dirName @ sq @ exSuffix))
                   else Inr (hd dirs))
          else (let files = findFiles h fs 10 (cwd h) t
                in if length files = 0
                   then Inl (Error (''Unable to find File named '' @ sq @ t @ sq @ exSuffix))
                   else Inr (pathDirname h (hd files))))"

section \<open>JSON patch\<close>

subsection \<open>Properties of an object\<close>

text \<open>
  An array index is the decimal text, without a leading zero, of a number below
  \<open>2^32 - 1\<close>; \<open>indexKey\<close> is the text of an index.
\<close>

definition decimalDigits :: string where
  "decimalDigits = ''0123456789''"

definition arrayIndex :: "string \<Rightarrow> nat option" where
  "arrayIndex key =
     (if key \<noteq> [] \<and> list_all (\<lambda>c. c \<in> set decimalDigits) key
         \<and> (length key = 1 \<or> hd key \<noteq> CHR ''0'')
      then let n = foldl (\<lambda>a c. 10 * a + int (length (takeWhile (\<lambda>d. d \<noteq> c) decimalDigits))) 0 key
           in if n < 4294967295 then Some (nat n) else None
      else None)"

fun indexKey :: "nat \<Rightarrow> string" where
  "indexKey n =
     (if n < 10 then [decimalDigits ! n] else indexKey (n div 10) @ [decimalDigits ! (n mod 10)])"

definition emptyObject :: "ref option \<Rightarrow> jsobject" where
  "emptyObject p = \<lparr> objProto = p, objArray = None, objCallable = False, objProps = [] \<rparr>"

text \<open>A reference names an object of the store; a new object gets the next reference.\<close>

definition objAt :: "heap \<Rightarrow> ref \<Rightarrow> jsobject" where
  "objAt heap r = (if r < length heap then heap ! r else emptyObject None)"

definition newObject :: "heap \<Rightarrow> jsobject \<Rightarrow> heap \<times> ref" where
  "newObject heap obj = (heap @ [obj], length heap)"

fun configurable :: "property \<Rightarrow> bool" where
  "configurable (Data v w e c) = c"
| "configurable (Accessor a c) = c"

text \<open>
  The property of its own that an object has under a key. The length of an array is
  such a property: writable, not enumerable, not configurable.
\<close>

definition getOwnProperty :: "heap \<Rightarrow> ref \<Rightarrow> string \<Rightarrow> property option" where
  "getOwnProperty heap r key =
     (case objArray (objAt heap r) of
        Some len \<Rightarrow>
          if key = ''length'' then Some (Data (VNum (Finite (of_nat len))) True False False)
          else map_of (objProps (objAt heap r)) key
      | None \<Rightarrow> map_of (objProps (objAt heap r)) key)"

text \<open>
  The property that an object has or inherits: its own, or that of the nearest
  prototype that has one. A chain of prototypes has no more objects than the store.
\<close>

fun findProperty :: "nat \<Rightarrow> heap \<Rightarrow> ref \<Rightarrow> string \<Rightarrow> property option" where
  "findProperty 0 heap r key = None"
| "findProperty (Suc n) heap r key =
     (case getOwnProperty heap r key of
        Some p \<Rightarrow> Some p
      | None \<Rightarrow>
          (case objProto (objAt heap r) of
             None \<Rightarrow> None
           | Some parent \<Rightarrow> findProperty n heap parent key))"

definition lookupProperty :: "heap \<Rightarrow> ref \<Rightarrow> string \<Rightarrow> property option" where
  "lookupProperty heap r key = findProperty (length heap) heap r key"

text \<open>\<open>key in target\<close>, for an object.\<close>

definition hasProperty :: "heap \<Rightarrow> ref \<Rightarrow> string \<Rightarrow> bool" where
  "hasProperty heap r key = (lookupProperty heap r key \<noteq> None)"

text \<open>
  The value that a property gives to a reader whose prototype is \<open>parent\<close>: the getter
  of \<open>__proto__\<close> returns the prototype of the reader.
\<close>

definition readProperty :: "ref option \<Rightarrow> property option \<Rightarrow> error + jsvalue" where
  "readProperty parent p =
     (case p of
        None \<Rightarrow> Inr VUndefined
      | Some (Data v w e c) \<Rightarrow> Inr v
      | Some (Accessor ProtoAccessor c) \<Rightarrow>
          Inr (case parent of None \<Rightarrow> VNull | Some q \<Rightarrow> VObj q)
      | Some (Accessor ThrowTypeError c) \<Rightarrow> Inl TypeError)"

text \<open>\<open>target[key]\<close>, for an object.\<close>

definition getProperty :: "heap \<Rightarrow> ref \<Rightarrow> string \<Rightarrow> error + jsvalue" where
  "getProperty heap r key = readProperty (objProto (objAt heap r)) (lookupProperty heap r key)"

text \<open>
  A string, a number and a boolean have the properties of the prototype of their kind;
  a string has, before these, its length and its characters, which are not writable.
\<close>

definition primitivePrototype :: "host \<Rightarrow> jsvalue \<Rightarrow> ref" where
  "primitivePrototype h v =
     (case v of
        VBool b \<Rightarrow> booleanPrototype h
      | VNum n \<Rightarrow> numberPrototype h
      | _ \<Rightarrow> stringPrototype h)"

definition stringProperty :: "jsvalue \<Rightarrow> string \<Rightarrow> property option" where
  "stringProperty v key =
     (case v of
        VStr s \<Rightarrow>
          if key = ''length'' then Some (Data (VNum (Finite (of_nat (length s)))) False False False)
          else (case arrayIndex key of
                  Some i \<Rightarrow> if i < length s then Some (Data (VStr [s ! i]) False True False) else None
                | None \<Rightarrow> None)
      | _ \<Rightarrow> None)"

definition primitiveProperty :: "host \<Rightarrow> heap \<Rightarrow> jsvalue \<Rightarrow> string \<Rightarrow> property option" where
  "primitiveProperty h heap v key =
     (case stringProperty v key of
        Some p \<Rightarrow> Some p
      | None \<Rightarrow> lookupProperty heap (primitivePrototype h v) key)"

text \<open>\<open>value[key]\<close> for any value: \<open>undefined\<close> and \<open>null\<close> have no properties.\<close>

definition getV :: "host \<Rightarrow> heap \<Rightarrow> jsvalue \<Rightarrow> string \<Rightarrow> error + jsvalue" where
  "getV h heap v key =
     (case v of
        VUndefined \<Rightarrow> Inl TypeError
      | VNull \<Rightarrow> Inl TypeError
      | VObj r \<Rightarrow> getProperty heap r key
      | _ \<Rightarrow> readProperty (Some (primitivePrototype h v)) (primitiveProperty h heap v key))"

text \<open>Whether a value is a function.\<close>

definition callable :: "heap \<Rightarrow> jsvalue \<Rightarrow> bool" where
  "callable heap v = (case v of VObj f \<Rightarrow> objCallable (objAt heap f) | _ \<Rightarrow> False)"

subsection \<open>Assignment and deletion\<close>

text \<open>
  An object gets a value under a key of its own: the value of the property that is
  there is replaced, a new property is writable, enumerable and configurable and comes
  last.
\<close>

definition defineOwn :: "heap \<Rightarrow> ref \<Rightarrow> string \<Rightarrow> jsvalue \<Rightarrow> heap" where
  "defineOwn heap r key v =
     (let obj = objAt heap r;
          p = (case map_of (objProps obj) key of
                 Some (Data old w e c) \<Rightarrow> Data v w e c
               | _ \<Rightarrow> Data v True True True)
      in heap[r := obj \<lparr> objProps := AList.update key p (objProps obj) \<rparr>])"

text \<open>
  The length of an array is set: the elements from the new length on are deleted, down
  to the first that is not configurable.
\<close>

definition setLength :: "heap \<Rightarrow> ref \<Rightarrow> nat \<Rightarrow> heap" where
  "setLength heap r newLen =
     (let obj = objAt heap r;
          kept = concat (map (\<lambda>(k, p). case arrayIndex k of
                                          Some i \<Rightarrow> if newLen \<le> i \<and> \<not> configurable p then [Suc i] else []
                                        | None \<Rightarrow> [])
                             (objProps obj));
          len = fold max kept newLen
      in heap[r := obj \<lparr> objArray := Some len,
                          objProps := filter (\<lambda>(k, p). case arrayIndex k of
                                                          Some i \<Rightarrow> i < len
                                                        | None \<Rightarrow> True)
                                             (objProps obj) \<rparr>])"

text \<open>
  The object itself gets the value. An array grows with an index at or above its
  length, and its length is set by the number that the runtime makes of the value
  (a \<open>RangeError\<close> when that is no length).
\<close>

definition assign :: "host \<Rightarrow> heap \<Rightarrow> ref \<Rightarrow> string \<Rightarrow> jsvalue \<Rightarrow> error + heap" where
  "assign h heap r key v =
     (case objArray (objAt heap r) of
        None \<Rightarrow> Inr (defineOwn heap r key v)
      | Some len \<Rightarrow>
          if key = ''length''
          then (case toArrayLength h heap v of
                  Inl e \<Rightarrow> Inl e
                | Inr newLen \<Rightarrow> Inr (setLength heap r newLen))
          else (case arrayIndex key of
                  Some i \<Rightarrow>
                    if len \<le> i
                    then let heap1 = defineOwn heap r key v
                         in Inr (heap1[r := (objAt heap1 r) \<lparr> objArray := Some (Suc i) \<rparr>])
                    else Inr (defineOwn heap r key v)
                | None \<Rightarrow> Inr (defineOwn heap r key v)))"

text \<open>Whether the object \<open>r\<close> is \<open>p\<close> or one of the prototypes above \<open>p\<close>.\<close>

fun onChain :: "nat \<Rightarrow> heap \<Rightarrow> ref \<Rightarrow> ref \<Rightarrow> bool" where
  "onChain 0 heap p r = False"
| "onChain (Suc n) heap p r =
     (p = r \<or> (case objProto (objAt heap p) of
                  None \<Rightarrow> False
                | Some q \<Rightarrow> onChain n heap q r))"

text \<open>
  The setter of \<open>__proto__\<close>: a value that is neither an object nor \<open>null\<close> is ignored;
  the prototype of \<open>Object.prototype\<close> cannot be changed, and no object can become its
  own ancestor.
\<close>

definition setPrototype :: "host \<Rightarrow> heap \<Rightarrow> ref \<Rightarrow> jsvalue \<Rightarrow> error + heap" where
  "setPrototype h heap r v =
     (let new = (case v of VObj p \<Rightarrow> Some (Some p) | VNull \<Rightarrow> Some None | _ \<Rightarrow> None)
      in case new of
           None \<Rightarrow> Inr heap
         | Some parent \<Rightarrow>
             if objProto (objAt heap r) = parent then Inr heap
             else if r = objectPrototype h then Inl TypeError
             else if (case parent of None \<Rightarrow> False | Some p \<Rightarrow> onChain (length heap) heap p r)
             then Inl TypeError
             else Inr (heap[r := (objAt heap r) \<lparr> objProto := parent \<rparr>]))"

text \<open>
  \<open>target[key] = v\<close> for an object, outside strict mode: a setter that is found is
  called, a property that is not writable, the object's own or an inherited one, makes
  the assignment do nothing, and in every other case the object itself gets the value.
\<close>

definition setProperty :: "host \<Rightarrow> heap \<Rightarrow> ref \<Rightarrow> string \<Rightarrow> jsvalue \<Rightarrow> error + heap" where
  "setProperty h heap r key v =
     (case lookupProperty heap r key of
        None \<Rightarrow> assign h heap r key v
      | Some (Data old w e c) \<Rightarrow> if w then assign h heap r key v else Inr heap
      | Some (Accessor ProtoAccessor c) \<Rightarrow> setPrototype h heap r v
      | Some (Accessor ThrowTypeError c) \<Rightarrow> Inl TypeError)"

text \<open>
  \<open>delete target[key]\<close> for an object, outside strict mode: a property of its own that
  is configurable is removed, and nothing else happens.
\<close>

definition deleteProperty :: "heap \<Rightarrow> ref \<Rightarrow> string \<Rightarrow> heap" where
  "deleteProperty heap r key =
     (case getOwnProperty heap r key of
        None \<Rightarrow> heap
      | Some p \<Rightarrow>
          if configurable p
          then heap[r := (objAt heap r) \<lparr> objProps := AList.delete key (objProps (objAt heap r)) \<rparr>]
          else heap)"


text \<open>
  \<open>target[key] = v\<close> and \<open>delete target[key]\<close> for any value, outside strict mode:
  \<open>undefined\<close> and \<open>null\<close> throw, and a string, a number or a boolean is left as it is
  (an assignment still calls the setter that it finds).
\<close>

definition assignTo :: "host \<Rightarrow> heap \<Rightarrow> jsvalue \<Rightarrow> string \<Rightarrow> jsvalue \<Rightarrow> error + heap" where
  "assignTo h heap target key v =
     (case target of
        VUndefined \<Rightarrow> Inl TypeError
      | VNull \<Rightarrow> Inl TypeError
      | VObj r \<Rightarrow> setProperty h heap r key v
      | _ \<Rightarrow>
          (case primitiveProperty h heap target key of
             Some (Accessor ThrowTypeError c) \<Rightarrow> Inl TypeError
           | _ \<Rightarrow> Inr heap))"

definition deleteFrom :: "heap \<Rightarrow> jsvalue \<Rightarrow> string \<Rightarrow> error + heap" where
  "deleteFrom heap target key =
     (case target of
        VUndefined \<Rightarrow> Inl TypeError
      | VNull \<Rightarrow> Inl TypeError
      | VObj r \<Rightarrow> Inr (deleteProperty heap r key)
      | _ \<Rightarrow> Inr heap)"

subsection \<open>Reading and printing a document\<close>

text \<open>
  The objects that \<open>JSON.parse\<close> makes of a document. The members of an object become
  properties of its own in the order of the text (also a member named \<open>__proto__\<close>), a
  later member of the same name replacing the value of the earlier.
\<close>

fun allocJson :: "host \<Rightarrow> heap \<Rightarrow> json \<Rightarrow> heap \<times> jsvalue"
and allocElements :: "host \<Rightarrow> heap \<Rightarrow> json list \<Rightarrow> heap \<times> jsvalue list"
and allocMembers :: "host \<Rightarrow> heap \<Rightarrow> (string \<times> json) list \<Rightarrow> heap \<times> (string \<times> jsvalue) list"
where
  "allocJson h heap JUndefined = (heap, VUndefined)"
| "allocJson h heap JNull = (heap, VNull)"
| "allocJson h heap (JBool b) = (heap, VBool b)"
| "allocJson h heap (JNum n) = (heap, VNum n)"
| "allocJson h heap (JStr s) = (heap, VStr s)"
| "allocJson h heap (JArr xs) =
     (case allocElements h heap xs of
        (heap1, vs) \<Rightarrow>
          (case newObject heap1
                  \<lparr> objProto = Some (arrayPrototype h), objArray = Some (length vs),
                    objCallable = False,
                    objProps = zip (map indexKey [0 ..< length vs])
                                   (map (\<lambda>v. Data v True True True) vs) \<rparr> of
             (heap2, r) \<Rightarrow> (heap2, VObj r)))"
| "allocJson h heap (JObj kvs) =
     (case allocMembers h heap kvs of
        (heap1, ms) \<Rightarrow>
          (case newObject heap1
                  \<lparr> objProto = Some (objectPrototype h), objArray = None, objCallable = False,
                    objProps = foldl (\<lambda>ps (k, v). AList.update k (Data v True True True) ps) [] ms \<rparr> of
             (heap2, r) \<Rightarrow> (heap2, VObj r)))"
| "allocElements h heap [] = (heap, [])"
| "allocElements h heap (x # xs) =
     (case allocJson h heap x of
        (heap1, v) \<Rightarrow>
          (case allocElements h heap1 xs of
             (heap2, vs) \<Rightarrow> (heap2, v # vs)))"
| "allocMembers h heap [] = (heap, [])"
| "allocMembers h heap ((k, x) # kvs) =
     (case allocJson h heap x of
        (heap1, v) \<Rightarrow>
          (case allocMembers h heap1 kvs of
             (heap2, ms) \<Rightarrow> (heap2, (k, v) # ms)))"

text \<open>
  The properties that \<open>JSON.stringify\<close> prints for an object: its own enumerable ones,
  those named by an array index first, in ascending order, then the others in the order
  of their creation.
\<close>

definition enumerableOwn :: "heap \<Rightarrow> ref \<Rightarrow> (string \<times> jsvalue) list" where
  "enumerableOwn heap r =
     (let ps = concat (map (\<lambda>(k, p). case p of
                                       Data v w e c \<Rightarrow> if e then [(k, v)] else []
                                     | Accessor a c \<Rightarrow> [])
                          (objProps (objAt heap r)));
          indexed = concat (map (\<lambda>(k, v). case arrayIndex k of
                                              Some i \<Rightarrow> [(i, k, v)]
                                            | None \<Rightarrow> [])
                                ps)
      in map snd (sort_key fst indexed) @ filter (\<lambda>(k, v). arrayIndex k = None) ps)"

fun collect :: "(error + 'a) list \<Rightarrow> error + 'a list" where
  "collect [] = Inr []"
| "collect (x # xs) =
     (case x of
        Inl e \<Rightarrow> Inl e
      | Inr y \<Rightarrow> (case collect xs of Inl e \<Rightarrow> Inl e | Inr ys \<Rightarrow> Inr (y # ys)))"

text \<open>
  The document that \<open>JSON.stringify\<close> prints for a value: the elements of an array are
  read by their index up to its length (an element that is missing is read from the
  prototypes), a function is printed like \<open>undefined\<close>, and an object that contains
  itself is a \<open>TypeError\<close>: a document without such an object is no deeper than the
  store has objects. No object of the store has a method \<open>toJSON\<close>.
\<close>

fun toJson :: "nat \<Rightarrow> heap \<Rightarrow> jsvalue \<Rightarrow> error + json" where
  "toJson n heap VUndefined = Inr JUndefined"
| "toJson n heap VNull = Inr JNull"
| "toJson n heap (VBool b) = Inr (JBool b)"
| "toJson n heap (VNum x) = Inr (JNum x)"
| "toJson n heap (VStr s) = Inr (JStr s)"
| "toJson 0 heap (VObj r) = Inl TypeError"
| "toJson (Suc n) heap (VObj r) =
     (if objCallable (objAt heap r) then Inr JUndefined
      else
        (case objArray (objAt heap r) of
           Some len \<Rightarrow>
             (case collect (map (\<lambda>i. case getProperty heap r (indexKey i) of
                                         Inl e \<Rightarrow> Inl e
                                       | Inr v \<Rightarrow> toJson n heap v)
                                [0 ..< len]) of
                Inl e \<Rightarrow> Inl e
              | Inr xs \<Rightarrow> Inr (JArr xs))
         | None \<Rightarrow>
             (case collect (map (\<lambda>(k, v). case toJson n heap v of
                                              Inl e \<Rightarrow> Inl e
                                            | Inr x \<Rightarrow> Inr (k, x))
                                (enumerableOwn heap r)) of
                Inl e \<Rightarrow> Inl e
              | Inr kvs \<Rightarrow> Inr (JObj kvs))))"

subsection \<open>The operations of a patch\<close>

text \<open>
  \<open>op.path.split('/').filter(p => p)\<close>: the segments of the pointer that are not empty.
  \<open>split\<close> is the method of the string and \<open>filter\<close> that of the array which \<open>split\<close>
  returns, both found in the prototypes; \<open>filter\<close> makes its result with the
  \<open>constructor\<close> that the array inherits, which has to be an object or \<open>undefined\<close>.
\<close>

definition pathSegments :: "host \<Rightarrow> heap \<Rightarrow> string \<Rightarrow> error + string list" where
  "pathSegments h heap path =
     (case getV h heap (VStr path) ''split'' of
        Inl e \<Rightarrow> Inl e
      | Inr split \<Rightarrow>
          if \<not> callable heap split then Inl TypeError
          else
            (case readProperty (Some (arrayPrototype h))
                    (lookupProperty heap (arrayPrototype h) ''filter'') of
               Inl e \<Rightarrow> Inl e
             | Inr filter_method \<Rightarrow>
                 if \<not> callable heap filter_method then Inl TypeError
                 else
                   (case readProperty (Some (arrayPrototype h))
                           (lookupProperty heap (arrayPrototype h) ''constructor'') of
                      Inl e \<Rightarrow> Inl e
                    | Inr VUndefined \<Rightarrow> Inr (filter (\<lambda>p. p \<noteq> []) (splitStr path ''/''))
                    | Inr (VObj c) \<Rightarrow> Inr (filter (\<lambda>p. p \<noteq> []) (splitStr path ''/''))
                    | Inr _ \<Rightarrow> Inl TypeError)))"

text \<open>
  \<open>pathParts[pathParts.length - 1]\<close>: the last segment; with no segment, what the empty
  array inherits under \<open>-1\<close>, which is \<open>undefined\<close> unless a patch has put it there.
\<close>

definition lastSegment :: "host \<Rightarrow> heap \<Rightarrow> string list \<Rightarrow> error + jsvalue" where
  "lastSegment h heap pathParts =
     (if pathParts = []
      then readProperty (Some (arrayPrototype h)) (lookupProperty heap (arrayPrototype h) ''-1'')
      else Inr (VStr (last pathParts)))"

text \<open>The key that a value is as the name of a property.\<close>

definition propertyKey :: "host \<Rightarrow> heap \<Rightarrow> jsvalue \<Rightarrow> error + string" where
  "propertyKey h heap v =
     (case v of
        VStr s \<Rightarrow> Inr s
      | VUndefined \<Rightarrow> Inr ''undefined''
      | VNull \<Rightarrow> Inr ''null''
      | VBool b \<Rightarrow> Inr (if b then ''true'' else ''false'')
      | _ \<Rightarrow> toPropertyKey h heap v)"

text \<open>
  The walk to the parent of the last segment. \<open>key in target\<close> throws when the target is
  no object, and it is true for a key that the target only inherits; a key that is not
  in the target gets an empty object; then the target becomes what it has under the
  key.
\<close>

fun patchWalk :: "host \<Rightarrow> heap \<Rightarrow> jsvalue \<Rightarrow> string list \<Rightarrow> error + heap \<times> jsvalue" where
  "patchWalk h heap target [] = Inr (heap, target)"
| "patchWalk h heap target (key # keys) =
     (case target of
        VObj r \<Rightarrow>
          (case (if hasProperty heap r key then Inr heap
                 else (case newObject heap (emptyObject (Some (objectPrototype h))) of
                         (heap1, fresh) \<Rightarrow> setProperty h heap1 r key (VObj fresh))) of
             Inl e \<Rightarrow> Inl e
           | Inr heap2 \<Rightarrow>
               (case getProperty heap2 r key of
                  Inl e \<Rightarrow> Inl e
                | Inr child \<Rightarrow> patchWalk h heap2 child keys))
      | _ \<Rightarrow> Inl TypeError)"

text \<open>
  The \<open>switch\<close> at the last segment: \<open>add\<close> and \<open>replace\<close> assign \<open>op.value\<close>, \<open>remove\<close>
  deletes, and any other kind does nothing.
\<close>

definition patchLast :: "host \<Rightarrow> heap \<Rightarrow> jsvalue \<Rightarrow> jsvalue \<Rightarrow> jsvalue \<Rightarrow> error + heap" where
  "patchLast h heap op target lastKey =
     (case getV h heap op ''op'' of
        Inl e \<Rightarrow> Inl e
      | Inr kind \<Rightarrow>
          if kind = VStr ''add'' \<or> kind = VStr ''replace''
          then (case propertyKey h heap lastKey of
                  Inl e \<Rightarrow> Inl e
                | Inr key \<Rightarrow>
                    (case getV h heap op ''value'' of
                       Inl e \<Rightarrow> Inl e
                     | Inr v \<Rightarrow> assignTo h heap target key v))
          else if kind = VStr ''remove''
          then (case propertyKey h heap lastKey of
                  Inl e \<Rightarrow> Inl e
                | Inr key \<Rightarrow> deleteFrom heap target key)
          else Inr heap)"

text \<open>One operation of the patch: the body of the loop over the patch document.\<close>

definition patchOperation :: "host \<Rightarrow> heap \<Rightarrow> jsvalue \<Rightarrow> jsvalue \<Rightarrow> error + heap" where
  "patchOperation h heap targetJson op =
     (case getV h heap op ''path'' of
        Inl e \<Rightarrow> Inl e
      | Inr (VStr path) \<Rightarrow>
          (case pathSegments h heap path of
             Inl e \<Rightarrow> Inl e
           | Inr pathParts \<Rightarrow>
               (case patchWalk h heap targetJson (butlast pathParts) of
                  Inl e \<Rightarrow> Inl e
                | Inr (heap1, target) \<Rightarrow>
                    (case lastSegment h heap1 pathParts of
                       Inl e \<Rightarrow> Inl e
                     | Inr lastKey \<Rightarrow> patchLast h heap1 op target lastKey)))
      | Inr _ \<Rightarrow> Inl TypeError)"

fun patchOperations :: "host \<Rightarrow> heap \<Rightarrow> jsvalue \<Rightarrow> jsvalue list \<Rightarrow> error + heap" where
  "patchOperations h heap targetJson [] = Inr heap"
| "patchOperations h heap targetJson (op # ops) =
     (case patchOperation h heap targetJson op of
        Inl e \<Rightarrow> Inl e
      | Inr heap1 \<Rightarrow> patchOperations h heap1 targetJson ops)"

text \<open>
  \<open>for (const op of patchJson)\<close>: an array gives its elements and a string its
  characters; no other value can be iterated.
\<close>

definition applyPatch :: "host \<Rightarrow> heap \<Rightarrow> jsvalue \<Rightarrow> json \<Rightarrow> error + heap" where
  "applyPatch h heap targetJson patchJson =
     (case patchJson of
        JArr xs \<Rightarrow>
          (case allocElements h heap xs of
             (heap1, ops) \<Rightarrow> patchOperations h heap1 targetJson ops)
      | JStr str \<Rightarrow> patchOperations h heap targetJson (map (\<lambda>c. VStr [c]) str)
      | _ \<Rightarrow> Inl TypeError)"

text \<open>
  The document that \<open>patchJsonFile\<close> prints for a target and a patch: both are parsed
  into the store of the runtime, the operations are done, and the target is printed.
\<close>

definition patchDocument :: "host \<Rightarrow> json \<Rightarrow> json \<Rightarrow> error + json" where
  "patchDocument h target patch =
     (case allocJson h (realm h) target of
        (heap1, targetJson) \<Rightarrow>
          (case applyPatch h heap1 targetJson patch of
             Inl e \<Rightarrow> Inl e
           | Inr heap2 \<Rightarrow> toJson (length heap2) heap2 targetJson))"

definition patchJsonFile :: "host \<Rightarrow> fs \<Rightarrow> string \<Rightarrow> string \<Rightarrow> error option \<times> fs" where
  "patchJsonFile h fs targetFile patchFile =
     (case (if \<not> existsSync fs targetFile then writeFileSync h fs targetFile ''{}'' else Inr fs) of
        Inl e \<Rightarrow> (Some e, fs)
      | Inr fs1 \<Rightarrow>
          (case readFileSync fs1 targetFile of
             Inl e \<Rightarrow> (Some e, fs1)
           | Inr targetText \<Rightarrow>
               (case jsonParse h targetText of
                  None \<Rightarrow> (Some SyntaxError, fs1)
                | Some targetJson \<Rightarrow>
                    (case readFileSync fs1 patchFile of
                       Inl e \<Rightarrow> (Some e, fs1)
                     | Inr patchText \<Rightarrow>
                         (case jsonParse h patchText of
                            None \<Rightarrow> (Some SyntaxError, fs1)
                          | Some patchJson \<Rightarrow>
                              (case patchDocument h targetJson patchJson of
                                 Inl e \<Rightarrow> (Some e, fs1)
                               | Inr patched \<Rightarrow>
                                   (case writeFileSync h fs1 targetFile (jsonStringify h patched) of
                                      Inl e \<Rightarrow> (Some e, fs1)
                                    | Inr fs2 \<Rightarrow> (None, fs2))))))))"

section \<open>Apply pipeline\<close>

definition osPaths :: "host \<Rightarrow> string \<Rightarrow> string" where
  "osPaths h filePath =
     (if isWin32 h then replaceAll ''/'' backslash filePath
      else replaceAll backslash ''/'' filePath)"

text \<open>The first part of \<open>resolveFilePath\<close>: the resolved file, before the qualified path is tried.\<close>

definition resolvedFileOf :: "host \<Rightarrow> config \<Rightarrow> string \<Rightarrow> string \<Rightarrow> string option \<Rightarrow> string" where
  "resolvedFileOf h cfg gistFilePath basePath projName =
     (let fileName = replaceMyApp (isWin32 h) (replaceTokens cfg) (osPaths h gistFilePath) projName;
          fileName = (if endsWith fileName ''?'' then dropEnd 1 fileName else fileName)
      in pathResolve h basePath (osPaths h fileName))"

text \<open>
  \<open>resolveFilePath\<close>. The call of itself in the source has \<open>applyTo = '.'\<close>, so it returns
  its resolved file. \<open>projName + '.'\<close> with a \<open>null\<close> name is \<open>null.\<close>.
\<close>

definition resolveFilePath :: "host \<Rightarrow> config \<Rightarrow> fs \<Rightarrow> string \<Rightarrow> string \<Rightarrow> string option \<Rightarrow> string \<Rightarrow> string" where
  "resolveFilePath h cfg fs gistFilePath basePath projName applyTo =
     (let resolvedFile = resolvedFileOf h cfg gistFilePath basePath projName;
          writesToFolder = includesStr gistFilePath backslash
      in if applyTo = ''$HOST'' \<and> writesToFolder \<and> \<not> existsSync fs (pathDirname h resolvedFile)
         then let currentBasePath = cwd h;
                  tryPath = (case projName of None \<Rightarrow> ''null'' | Some p \<Rightarrow> p) @ ''.'' @ gistFilePath;
                  resolvedPath = resolvedFileOf h cfg tryPath currentBasePath projName
              in if existsSync fs (pathDirname h resolvedPath) then resolvedPath else resolvedFile
         else resolvedFile)"

record resolvedFile =
  rfPath :: string
  rfContent :: string
  rfOriginalName :: string

text \<open>
  The first loop of \<open>writeGistFile\<close>, over the entries of the bundle: the files to write
  and the content of the initialization script, or the error thrown.
\<close>

fun resolveFiles :: "host \<Rightarrow> config \<Rightarrow> fs \<Rightarrow> string \<Rightarrow> string \<Rightarrow> string \<Rightarrow> string option
    \<Rightarrow> (string \<times> string) list \<Rightarrow> resolvedFile list \<Rightarrow> string option
    \<Rightarrow> error + (resolvedFile list \<times> string option)" where
  "resolveFiles h cfg fs gistAlias gistLinkUrl to projName [] resolvedFiles initFile =
     Inr (resolvedFiles, initFile)"
| "resolveFiles h cfg fs gistAlias gistLinkUrl to projName ((fileName, content) # files) resolvedFiles initFile =
     (if includesStr fileName ''..''
      then Inl (Error (''Invalid file name '' @ sq @ fileName @ sq @ '' from '' @ sq @ gistLinkUrl @ sq))
      else
        let alias = (if gistAlias \<noteq> [] then sq @ gistAlias @ sq @ '' '' else []);
            exSuffix = '' required by '' @ alias @ gistLinkUrl
        in (case resolveBasePath h fs (Some to) exSuffix of
              Inl e \<Rightarrow> Inl e
            | Inr basePath \<Rightarrow>
                if fileName = ''_init''
                then resolveFiles h cfg fs gistAlias gistLinkUrl to projName files resolvedFiles (Some content)
                else
                  let resolved = resolveFilePath h cfg fs fileName basePath projName to;
                      noOverride = (preserve cfg \<or> endsWith fileName ''?'')
                  in if noOverride \<and> existsSync fs resolved
                     then resolveFiles h cfg fs gistAlias gistLinkUrl to projName files resolvedFiles initFile
                     else resolveFiles h cfg fs gistAlias gistLinkUrl to projName files
                            (resolvedFiles @
                              [\<lparr> rfPath = resolved,
                                 rfContent = replaceMyApp (isWin32 h) (replaceTokens cfg) content projName,
                                 rfOriginalName = fileName \<rparr>])
                            initFile))"

text \<open>
  The display of the files and the prompt: the error thrown, if any, and what is
  printed. \<open>promptYesNo\<close> is reached with neither \<open>silent\<close> nor \<open>forceApproval\<close> set, so it
  asks.
\<close>

definition newline :: string where
  "newline = [CHR 0x0A]"

definition confirmWrite :: "host \<Rightarrow> config \<Rightarrow> string \<Rightarrow> string \<Rightarrow> resolvedFile list \<Rightarrow> error option \<times> event list" where
  "confirmWrite h cfg gistAlias gistLinkUrl resolvedFiles =
     (let label = (if gistAlias \<noteq> [] \<and> \<not> includesStr gistAlias ''://''
                   then sq @ gistAlias @ sq @ '' '' else [])
      in if \<not> silent cfg
         then (case decodeURIComponent h gistLinkUrl of
                 None \<Rightarrow> (Some URIError, [])
               | Some decoded \<Rightarrow>
                   let message = newline @ ''Write files from '' @ label @ decoded @ '' to:''
                         @ newline @ newline
                         @ concat (map (\<lambda>file. ''  '' @ rfPath file @ newline) resolvedFiles)
                   in if \<not> forceApproval cfg
                      then if promptAnswer h
                           then (None, [Log message, Log ''Proceed? (n/Y):''])
                           else (Some (Error ''Operation cancelled by user.''),
                                 [Log message, Log ''Proceed? (n/Y):''])
                      else (None, [Log (replaceFirst ''Write files from'' ''Writing files from'' message)]))
         else (None, []))"

subsection \<open>Command sandbox\<close>

definition allowedPrefixes :: "string list" where
  "allowedPrefixes = [''npm '', ''yarn '', ''pnpm '', ''nuget '', ''dotnet '', ''flutter '',
                      ''dart '', ''kamal '']"

text \<open>The characters of the test \<open>/["'&;$@|>]/\<close>.\<close>

definition illegalChars :: string where
  "illegalChars = [CHR 0x22, CHR 0x27, CHR ''&'', CHR '';'', CHR ''$'', CHR ''@'', CHR ''|'', CHR ''>'']"

text \<open>The additional restrictions on the tools: true when the command is refused.\<close>

definition notAllowed :: "string \<Rightarrow> bool" where
  "notAllowed cmd =
     ((startsWith cmd ''nuget''
         \<and> \<not> list_ex (startsWith cmd) [''nuget add'', ''nuget restore'', ''nuget update''])
      \<or> (startsWith cmd ''dotnet''
         \<and> \<not> list_ex (startsWith cmd) [''dotnet add '', ''dotnet restore'']
         \<and> cmd \<noteq> ''dotnet restore'')
      \<or> (startsWith cmd ''flutter'' \<and> \<not> startsWith cmd ''flutter create '')
      \<or> (startsWith cmd ''dart''
         \<and> \<not> list_ex (startsWith cmd) [''dart pub add'', ''dart pub get''])
      \<or> (startsWith cmd ''kamal'' \<and> \<not> startsWith cmd ''kamal init''))"

text \<open>
  The arguments of a command after substitution. \<open>projName.replace\<close> throws a
  \<open>TypeError\<close> at the first argument when the project name is \<open>null\<close>.
\<close>

definition commandArgs :: "host \<Rightarrow> config \<Rightarrow> string option \<Rightarrow> string list \<Rightarrow> error + string list" where
  "commandArgs h cfg projName rawArgs =
     (case projName of
        None \<Rightarrow> if rawArgs = [] then Inr [] else Inl TypeError
      | Some p \<Rightarrow>
          Inr (map (\<lambda>arg. replaceMyApp (isWin32 h) (replaceTokens cfg) arg
                            (Some (replaceAll ''.'' ''_'' p))) rawArgs))"

text \<open>
  One line of the initialization script: the error thrown, the file system after the
  line, and what is printed and spawned. A command is spawned with \<open>shell: false\<close>.
\<close>

definition initLine :: "host \<Rightarrow> config \<Rightarrow> string option \<Rightarrow> string \<Rightarrow> fs \<Rightarrow> string \<Rightarrow> error option \<times> fs \<times> event list" where
  "initLine h cfg projName hostDir fs line =
     (let trimmed = trim line in
      if startsWith trimmed ''#'' then (None, fs, [])
      else
        let cmd = trimmed;
            isAllowed = list_ex (\<lambda>p. startsWith cmd p) allowedPrefixes
        in if \<not> isAllowed then (None, fs, [])
           else if notAllowed cmd then (None, fs, [])
           else if list_ex (\<lambda>c. c \<in> set illegalChars) cmd
           then (None, fs, [Log (''Command contains illegal characters, ignoring: '' @ sq @ cmd @ sq)])
           else
             let cmdParts = splitStr cmd '' '';
                 executable = hd cmdParts;
                 rawArgs = tl cmdParts
             in (case commandArgs h cfg projName rawArgs of
                   Inl e \<Rightarrow> (Some e, fs, [Log cmd])
                 | Inr cmdArgs \<Rightarrow>
                     let (fs', failed) = spawnSync h executable cmdArgs hostDir fs
                     in (None, fs',
                         [Log cmd, Spawn executable cmdArgs hostDir False]
                         @ (if failed then [Log (''Failed to execute: '' @ cmd)] else []))))"

fun initLines :: "host \<Rightarrow> config \<Rightarrow> string option \<Rightarrow> string \<Rightarrow> fs \<Rightarrow> string list \<Rightarrow> error option \<times> fs \<times> event list" where
  "initLines h cfg projName hostDir fs [] = (None, fs, [])"
| "initLines h cfg projName hostDir fs (line # lines) =
     (case initLine h cfg projName hostDir fs line of
        (Some e, fs', evs) \<Rightarrow> (Some e, fs', evs)
      | (None, fs', evs) \<Rightarrow>
          (case initLines h cfg projName hostDir fs' lines of
             (r, fs'', evs') \<Rightarrow> (r, fs'', evs @ evs')))"

definition runInit :: "host \<Rightarrow> config \<Rightarrow> fs \<Rightarrow> string \<Rightarrow> string \<Rightarrow> string option \<Rightarrow> string option \<Rightarrow> error option \<times> fs \<times> event list" where
  "runInit h cfg fs gistLinkUrl to projName initFile =
     (case initFile of
        None \<Rightarrow> (None, fs, [])
      | Some content \<Rightarrow>
          (case resolveBasePath h fs (Some to) ('' required by '' @ gistLinkUrl) of
             Inl e \<Rightarrow> (Some e, fs, [])
           | Inr hostDir \<Rightarrow> initLines h cfg projName hostDir fs (splitStr content newline)))"





subsection \<open>Writing the files\<close>

text \<open>
  The path and the content that are written for a resolved file: the marker \<open>|base64\<close>
  is cut off and the content decoded.
\<close>

definition writtenPath :: "resolvedFile \<Rightarrow> string" where
  "writtenPath file =
     (if endsWith (rfPath file) ''|base64'' then dropEnd 7 (rfPath file) else rfPath file)"

definition writtenContent :: "host \<Rightarrow> resolvedFile \<Rightarrow> string" where
  "writtenContent h file =
     (if endsWith (rfPath file) ''|base64'' then base64Decode h (rfContent file)
      else rfContent file)"

text \<open>The directory of a resolved file is made when it does not exist.\<close>

definition ensureDir :: "host \<Rightarrow> fs \<Rightarrow> resolvedFile \<Rightarrow> error option \<times> fs" where
  "ensureDir h fs file =
     (let dir = pathDirname h (rfPath file)
      in if \<not> existsSync fs dir then mkdirSync h fs dir else (None, fs))"

text \<open>
  The body of the last loop of \<open>writeGistFile\<close> for one file: the directory, the file,
  and the JSON patch when the file is one.
\<close>

definition writeOne :: "host \<Rightarrow> fs \<Rightarrow> resolvedFile \<Rightarrow> error option \<times> fs \<times> event list" where
  "writeOne h fs file =
     (if rfOriginalName file = ''_init'' then (None, fs, [])
      else
        (case ensureDir h fs file of
           (Some e, fs1) \<Rightarrow> (Some e, fs1, [])
         | (None, fs1) \<Rightarrow>
             let filePath = writtenPath file in
             (case writeFileSync h fs1 filePath (writtenContent h file) of
                Inl e \<Rightarrow> (Some e, fs1, [])
              | Inr fs2 \<Rightarrow>
                  if endsWith filePath ''.json.patch''
                  then let patchTarget = dropEnd 6 filePath in
                       if existsSync fs2 patchTarget
                       then (case patchJsonFile h fs2 patchTarget filePath of
                               (Some e, fs3) \<Rightarrow> (Some e, fs3, [Log (''Patching '' @ patchTarget @ ''...'')])
                             | (None, fs3) \<Rightarrow>
                                 (case unlinkSync fs3 filePath of
                                    Inl e \<Rightarrow> (Some e, fs3, [Log (''Patching '' @ patchTarget @ ''...'')])
                                  | Inr fs4 \<Rightarrow> (None, fs4, [Log (''Patching '' @ patchTarget @ ''...'')])))
                       else (None, fs2, [])
                  else (None, fs2, []))))"

fun writeFiles :: "host \<Rightarrow> fs \<Rightarrow> resolvedFile list \<Rightarrow> error option \<times> fs \<times> event list" where
  "writeFiles h fs [] = (None, fs, [])"
| "writeFiles h fs (file # files) =
     (case writeOne h fs file of
        (Some e, fs', evs) \<Rightarrow> (Some e, fs', evs)
      | (None, fs', evs) \<Rightarrow>
          (case writeFiles h fs' files of
             (r, fs'', evs') \<Rightarrow> (r, fs'', evs @ evs')))"

text \<open>
  \<open>writeGistFile\<close>: the error thrown (\<open>None\<close> when it returns), the file system after it,
  and what it printed and spawned.
\<close>

definition writeGistFile :: "host \<Rightarrow> config \<Rightarrow> fs \<Rightarrow> string \<Rightarrow> string \<Rightarrow> string \<Rightarrow> string option
    \<Rightarrow> error option \<times> fs \<times> event list" where
  "writeGistFile h cfg fs gistIdOrUrl gistAlias to projName0 =
     (let projName = sanitizeProjectName projName0 in
      case getGistFiles h gistIdOrUrl of
        Inl e \<Rightarrow> (Some e, fs, [])
      | Inr (files, gistLinkUrl) \<Rightarrow>
          (case resolveFiles h cfg fs gistAlias gistLinkUrl to projName files [] None of
             Inl e \<Rightarrow> (Some e, fs, [])
           | Inr (resolvedFiles, initFile) \<Rightarrow>
               (case confirmWrite h cfg gistAlias gistLinkUrl resolvedFiles of
                  (Some e, evs) \<Rightarrow> (Some e, fs, evs)
                | (None, evs) \<Rightarrow>
                    (case runInit h cfg fs gistLinkUrl to projName initFile of
                       (Some e, fs1, evs1) \<Rightarrow> (Some e, fs1, evs @ evs1)
                     | (None, fs1, evs1) \<Rightarrow>
                         (case writeFiles h fs1 resolvedFiles of
                            (r, fs2, evs2) \<Rightarrow> (r, fs2, evs @ evs1 @ evs2))))))"

section \<open>Identifier resolver\<close>

definition digits :: string where
  "digits = ''0123456789''"

text \<open>\<open>parseInt(alias, 10)\<close>; \<open>None\<close> is \<open>NaN\<close>.\<close>

definition digitValue :: "char \<Rightarrow> int" where
  "digitValue c = int (length (takeWhile (\<lambda>d. d \<noteq> c) digits))"

definition parseInt :: "string \<Rightarrow> int option" where
  "parseInt str =
     (let t = dropWhile isSpace str;
          negative = startsWith t ''-'';
          r = (if startsWith t ''-'' \<or> startsWith t ''+'' then drop 1 t else t);
          ds = takeWhile (\<lambda>c. c \<in> set digits) r
      in if ds = [] then None
         else Some ((if negative then - 1 else 1) * foldl (\<lambda>a d. 10 * a + digitValue d) 0 ds))"

definition resolveAlias :: "gistLink list \<Rightarrow> string \<Rightarrow> string" where
  "resolveAlias links alias =
     (case parseInt alias of
        None \<Rightarrow> alias
      | Some num \<Rightarrow>
          if num > 0 \<and> num \<le> int (length links) then linkName (links ! nat (num - 1))
          else alias)"

definition isGistId :: "string \<Rightarrow> bool" where
  "isGistId str =
     (if includesStr str ''-'' \<or> includesStr str ''.'' \<or> includesStr str '':'' then False
      else if includesStr str ''/''
      then (let firstPart = hd (splitStr str ''/'')
            in if length firstPart = 40 then False
               else length firstPart = 20 \<or> length firstPart = 32)
      else length str = 20 \<or> length str = 32)"

definition findGistLink :: "gistLink list \<Rightarrow> string \<Rightarrow> gistLink option" where
  "findGistLink links alias =
     (let sanitized = toLowerCase (replaceAll ''-'' [] alias)
      in List.find (\<lambda>l. toLowerCase (replaceAll ''-'' [] (linkName l)) = sanitized) links)"

definition getGistApplyLinks :: "host \<Rightarrow> config \<Rightarrow> error + gistLink list" where
  "getGistApplyLinks h cfg =
     (case getGistFiles h (gistLinksId cfg) of
        Inl e \<Rightarrow> Inl e
      | Inr (files, url) \<Rightarrow>
          (case map_of files ''mix.md'' of
             None \<Rightarrow>
               Inl (Error (''Could not find '' @ sq @ ''mix.md'' @ sq @ '' file in gist '' @ sq
                           @ gistLinksId cfg @ sq))
           | Some mixMd \<Rightarrow>
               if mixMd = []
               then Inl (Error (''Could not find '' @ sq @ ''mix.md'' @ sq @ '' file in gist '' @ sq
                                @ gistLinksId cfg @ sq))
               else Inr (parseGistLinks mixMd)))"

text \<open>\<open>projName || path.basename(process.cwd())\<close>.\<close>

definition defaultProjName :: "host \<Rightarrow> string option \<Rightarrow> string" where
  "defaultProjName h projName =
     (case projName of
        None \<Rightarrow> pathBasename h (cwd h)
      | Some p \<Rightarrow> if p = [] then pathBasename h (cwd h) else p)"

section \<open>Apply batch\<close>

text \<open>
  The loop of \<open>applyGists\<close>: the error thrown or the value returned, the file system, and
  what is printed and spawned. After each bundle \<open>forceApproval\<close> is set.
\<close>

fun applyAliases :: "host \<Rightarrow> config \<Rightarrow> fs \<Rightarrow> gistLink list \<Rightarrow> string \<Rightarrow> string list
    \<Rightarrow> (error + bool) \<times> fs \<times> event list" where
  "applyAliases h cfg fs links projName [] = (Inr True, fs, [])"
| "applyAliases h cfg fs links projName (gistAlias # aliases) =
     (let target =
            (if isGistId gistAlias
             then Some (''https://gist.github.com/'' @ gistAlias,
                        (case outDir cfg of Some d \<Rightarrow> if d = [] then ''.'' else d | None \<Rightarrow> ''.''))
             else if startsWith gistAlias ''https://'' \<or> startsWith gistAlias ''http://''
             then Some (gistAlias,
                        (case outDir cfg of Some d \<Rightarrow> if d = [] then ''.'' else d | None \<Rightarrow> ''.''))
             else (case findGistLink links gistAlias of
                     None \<Rightarrow> None
                   | Some gistLink \<Rightarrow>
                       Some ((case linkGistId gistLink of
                                Some g \<Rightarrow> if g = [] then linkUrl gistLink else g
                              | None \<Rightarrow> linkUrl gistLink),
                             (case outDir cfg of
                                Some d \<Rightarrow> if d \<noteq> [] then d
                                          else (case linkTo gistLink of
                                                  Some t \<Rightarrow> if t = [] then ''.'' else t
                                                | None \<Rightarrow> ''.'')
                              | None \<Rightarrow> (case linkTo gistLink of
                                           Some t \<Rightarrow> if t = [] then ''.'' else t
                                         | None \<Rightarrow> ''.'')))))
      in case target of
           None \<Rightarrow>
             (Inr False, fs,
              [Log (''No match found for '' @ sq @ gistAlias @ sq @ '', available gists:''),
               PrintGistLinks])
         | Some (gistIdOrUrl, to) \<Rightarrow>
             (case writeGistFile h cfg fs gistIdOrUrl gistAlias to (Some projName) of
                (Some e, fs', evs) \<Rightarrow> (Inl e, fs', evs)
              | (None, fs', evs) \<Rightarrow>
                  (case applyAliases h (cfg\<lparr>forceApproval := True\<rparr>) fs' links projName aliases of
                     (r, fs'', evs') \<Rightarrow> (r, fs'', evs @ evs'))))"

definition applyGists :: "host \<Rightarrow> config \<Rightarrow> fs \<Rightarrow> string list \<Rightarrow> string option
    \<Rightarrow> (error + bool) \<times> fs \<times> event list" where
  "applyGists h cfg fs gistAliases projName0 =
     (let projName = defaultProjName h projName0 in
      case getGistApplyLinks h cfg of
        Inl e \<Rightarrow> (Inl e, fs, [])
      | Inr links \<Rightarrow> applyAliases h cfg fs links projName (map (resolveAlias links) gistAliases))"

section \<open>Delete pipeline\<close>

fun showNat :: "nat \<Rightarrow> string" where
  "showNat n = (if n < 10 then [digits ! n] else showNat (n div 10) @ [digits ! (n mod 10)])"

text \<open>
  The bundle of one identifier for deletion: its files, its URL and the location hint;
  \<open>Inr None\<close> when the identifier matches no registry entry.
\<close>

definition deleteTarget :: "host \<Rightarrow> gistLink list \<Rightarrow> string
    \<Rightarrow> error + ((string \<times> string) list \<times> string \<times> string) option" where
  "deleteTarget h links gistAlias =
     (if isGistId gistAlias \<or> startsWith gistAlias ''https://'' \<or> startsWith gistAlias ''http://''
      then (case getGistFiles h gistAlias of
              Inl e \<Rightarrow> Inl e
            | Inr (files, url) \<Rightarrow> Inr (Some (files, url, ''.'')))
      else (case findGistLink links gistAlias of
              None \<Rightarrow> Inr None
            | Some gistLink \<Rightarrow>
                (case getGistFiles h (case linkGistId gistLink of
                                        Some g \<Rightarrow> if g = [] then linkUrl gistLink else g
                                      | None \<Rightarrow> linkUrl gistLink) of
                   Inl e \<Rightarrow> Inl e
                 | Inr (files, url) \<Rightarrow>
                     Inr (Some (files, linkUrl gistLink,
                                (case linkTo gistLink of
                                   Some t \<Rightarrow> if t = [] then ''.'' else t
                                 | None \<Rightarrow> ''.''))))))"

text \<open>The destination of every file of a bundle, whether it exists on disk or not.\<close>

definition resolvedPaths :: "host \<Rightarrow> config \<Rightarrow> fs \<Rightarrow> string \<Rightarrow> string \<Rightarrow> string \<Rightarrow> (string \<times> string) list \<Rightarrow> string list" where
  "resolvedPaths h cfg fs basePath projName to gistFiles =
     map (\<lambda>gistFile. resolveFilePath h cfg fs gistFile basePath (Some projName) to) (map fst gistFiles)"

datatype resolution =
    Raised error
  | NoMatch string
  | Resolved "string list" string

text \<open>
  The first loop of \<open>deleteGists\<close>: the existing resolved files of all bundles and the
  text to confirm.
\<close>

fun resolveDeletes :: "host \<Rightarrow> config \<Rightarrow> fs \<Rightarrow> gistLink list \<Rightarrow> string \<Rightarrow> string list
    \<Rightarrow> string list \<Rightarrow> string \<Rightarrow> resolution" where
  "resolveDeletes h cfg fs links projName [] allResolvedFiles output =
     Resolved allResolvedFiles output"
| "resolveDeletes h cfg fs links projName (gistAlias # aliases) allResolvedFiles output =
     (case deleteTarget h links gistAlias of
        Inl e \<Rightarrow> Raised e
      | Inr None \<Rightarrow> NoMatch gistAlias
      | Inr (Some (gistFiles, gistLinkUrl, to)) \<Rightarrow>
          let alias = (if gistAlias \<noteq> [] then sq @ gistAlias @ sq @ '' '' else []);
              exSuffix = '' required by '' @ alias @ gistLinkUrl
          in (case resolveBasePath h fs (Some to) exSuffix of
                Inl e \<Rightarrow> Raised e
              | Inr basePath \<Rightarrow>
                  let resolvedFiles =
                        filter (existsSync fs) (resolvedPaths h cfg fs basePath projName to gistFiles);
                      plural = (if length resolvedFiles \<noteq> 1 then ''s'' else [])
                  in resolveDeletes h cfg fs links projName aliases
                       (allResolvedFiles @ resolvedFiles)
                       (if length resolvedFiles > 0
                        then output @ newline @ ''Delete '' @ showNat (length resolvedFiles)
                               @ '' file'' @ plural @ '' from '' @ alias @ gistLinkUrl @ '':''
                               @ newline @ newline
                               @ concat (map (\<lambda>file. file @ newline) resolvedFiles)
                        else output)))"

text \<open>The unlink loop: an error of \<open>unlinkSync\<close> is caught, and the folder is then not recorded.\<close>

fun unlinkAll :: "host \<Rightarrow> fs \<Rightarrow> string list \<Rightarrow> string list \<Rightarrow> fs \<times> string list" where
  "unlinkAll h fs [] folders = (fs, folders)"
| "unlinkAll h fs (file # files) folders =
     (case unlinkSync fs file of
        Inl e \<Rightarrow> unlinkAll h fs files folders
      | Inr fs' \<Rightarrow>
          unlinkAll h fs' files
            (if pathDirname h file \<in> set folders then folders else folders @ [pathDirname h file]))"

text \<open>The removal of the empty folders: every error is caught.\<close>

fun removeEmptyFolders :: "host \<Rightarrow> fs \<Rightarrow> string list \<Rightarrow> fs" where
  "removeEmptyFolders h fs [] = fs"
| "removeEmptyFolders h fs (folder # folders) =
     (case readdirSync h fs folder of
        None \<Rightarrow> removeEmptyFolders h fs folders
      | Some entries \<Rightarrow>
          if length entries = 0
          then (case rmSync fs folder of
                  Inl e \<Rightarrow> removeEmptyFolders h fs folders
                | Inr fs' \<Rightarrow> removeEmptyFolders h fs' folders)
          else removeEmptyFolders h fs folders)"

text \<open>
  \<open>deleteGists\<close>: the error thrown or the value returned, the file system after it, and
  what it printed.
\<close>

definition deleteGists :: "host \<Rightarrow> config \<Rightarrow> fs \<Rightarrow> string list \<Rightarrow> string option
    \<Rightarrow> (error + bool) \<times> fs \<times> event list" where
  "deleteGists h cfg fs gistAliases projName0 =
     (let projName = defaultProjName h projName0 in
      case getGistApplyLinks h cfg of
        Inl e \<Rightarrow> (Inl e, fs, [])
      | Inr links \<Rightarrow>
          (case resolveDeletes h cfg fs links projName (map (resolveAlias links) gistAliases) [] [] of
             Raised e \<Rightarrow> (Inl e, fs, [])
           | NoMatch gistAlias \<Rightarrow>
               (Inr False, fs,
                [Log (''No match found for '' @ sq @ gistAlias @ sq @ '', available gists:''),
                 PrintGistLinks])
           | Resolved allResolvedFiles output \<Rightarrow>
               if length allResolvedFiles = 0
               then (Inr False, fs,
                     [Log (''Did not find any existing files from '' @ sq @ join '','' gistAliases
                           @ sq @ '' to delete'')])
               else
                 let deleting = [Log [], Log (''Deleting '' @ showNat (length allResolvedFiles) @ '' files...'')];
                     asked = (\<not> silent cfg \<and> \<not> forceApproval cfg);
                     evs = (if silent cfg then []
                            else if asked then [Log output, Log ''Proceed? (n/Y):'']
                            else [Log output])
                 in if asked \<and> \<not> promptAnswer h
                    then (Inl (Error ''Operation cancelled by user.''), fs, evs)
                    else
                      let (fs1, folders) = unlinkAll h fs allResolvedFiles [];
                          sortedFolders = sort_key (\<lambda>a. - int (length a)) folders;
                          fs2 = removeEmptyFolders h fs1 sortedFolders
                      in (Inr True, fs2,
                          evs @ (if silent cfg then [] else deleting @ [Log ''Done.'']))))"

text \<open>
  For the statement of the delete batch: the destination of every file of every bundle
  of the batch, whether it exists or not, as the first loop of \<open>deleteGists\<close> resolves
  them.
\<close>

fun batchPaths :: "host \<Rightarrow> config \<Rightarrow> fs \<Rightarrow> gistLink list \<Rightarrow> string \<Rightarrow> string list \<Rightarrow> string list" where
  "batchPaths h cfg fs links projName [] = []"
| "batchPaths h cfg fs links projName (gistAlias # aliases) =
     (case deleteTarget h links gistAlias of
        Inr (Some (gistFiles, gistLinkUrl, to)) \<Rightarrow>
          (case resolveBasePath h fs (Some to)
                  ('' required by '' @ (if gistAlias \<noteq> [] then sq @ gistAlias @ sq @ '' '' else [])
                   @ gistLinkUrl) of
             Inr basePath \<Rightarrow>
               resolvedPaths h cfg fs basePath projName to gistFiles
               @ batchPaths h cfg fs links projName aliases
           | Inl e \<Rightarrow> [])
      | _ \<Rightarrow> [])"

section \<open>An example host\<close>

text \<open>
  A host, a configuration, a file system and three bundles for the closed instances of
  the theorems below: POSIX paths that are already normal, a registry with the entries
  \<open>settings\<close> and \<open>gone\<close>, and a bundle with a file name that leaves the base directory.
\<close>

definition posixDirname :: "string \<Rightarrow> string" where
  "posixDirname p =
     (let parts = splitStr p ''/''
      in if length parts \<le> 2 then ''/'' else join ''/'' (butlast parts))"

definition demoPatchText :: string where
  \<open>demoPatchText = ''[{"op":"add","path":"/a/b","value":1}]''\<close>

definition patchOperationJson :: "string \<Rightarrow> string \<Rightarrow> json \<Rightarrow> json" where
  "patchOperationJson kind path v = JObj [(''op'', JStr kind), (''path'', JStr path), (''value'', v)]"

definition demoPatch :: json where
  "demoPatch = JArr [patchOperationJson ''add'' ''/a/b'' (JNum (Finite 1))]"

definition demoPatched :: json where
  "demoPatched = JObj [(''a'', JObj [(''b'', JNum (Finite 1))])]"

definition demoRemoveText :: string where
  \<open>demoRemoveText = ''[{"op":"remove","path":"/a/b"}]''\<close>

definition demoRemove :: json where
  "demoRemove = JArr [JObj [(''op'', JStr ''remove''), (''path'', JStr ''/a/b'')]]"

definition demoRemoved :: json where
  "demoRemoved = JObj [(''a'', JObj [])]"

definition demoInheritedText :: string where
  \<open>demoInheritedText = ''[{"op":"add","path":"/constructor/b","value":1}]''\<close>

definition demoInherited :: json where
  "demoInherited = JArr [patchOperationJson ''add'' ''/constructor/b'' (JNum (Finite 1))]"

text \<open>
  \<open>JSON.parse\<close> and \<open>JSON.stringify(value, null, 2)\<close> of the example host, for the texts
  and the documents of the examples.
\<close>

definition demoParse :: "string \<Rightarrow> json option" where
  "demoParse text =
     (if text = ''{}'' \<or> text = ''{ }'' then Some (JObj [])
      else if text = demoPatchText then Some demoPatch
      else if text = demoRemoveText then Some demoRemove
      else if text = demoInheritedText then Some demoInherited
      else None)"

definition demoPatchedText :: string where
  \<open>demoPatchedText =
     ''{'' @ [CHR 0x0A] @ ''  "a": {'' @ [CHR 0x0A] @ ''    "b": 1'' @ [CHR 0x0A] @ ''  }''
     @ [CHR 0x0A] @ ''}''\<close>

definition demoRemovedText :: string where
  \<open>demoRemovedText = ''{'' @ [CHR 0x0A] @ ''  "a": {}'' @ [CHR 0x0A] @ ''}''\<close>

definition demoStringify :: "json \<Rightarrow> string" where
  "demoStringify j =
     (if j = JObj [] then ''{}''
      else if j = demoPatched then demoPatchedText
      else if j = demoRemoved then demoRemovedText
      else ''null'')"

text \<open>
  The built-in objects of the example host: \<open>Object.prototype\<close>, \<open>Object\<close>,
  \<open>Function.prototype\<close>, \<open>Function\<close>, \<open>Array.prototype\<close>, \<open>Array\<close>, the prototypes of
  strings, numbers and booleans, and a function for each method.
\<close>

definition builtinFunction :: "string \<times> nat \<Rightarrow> jsobject" where
  "builtinFunction f =
     \<lparr> objProto = Some 2, objArray = None, objCallable = True,
       objProps = [(''length'', Data (VNum (Finite (of_nat (snd f)))) False False True),
                   (''name'', Data (VStr (fst f)) False False True)] \<rparr>"

definition methodsFrom :: "nat \<Rightarrow> (string \<times> nat) list \<Rightarrow> (string \<times> property) list" where
  "methodsFrom base fs =
     map (\<lambda>(i, f). (fst f, Data (VObj (base + i)) True False True)) (zip [0 ..< length fs] fs)"

definition objectPrototypeMethods :: "(string \<times> nat) list" where
  "objectPrototypeMethods =
     [(''__defineGetter__'', 2), (''__defineSetter__'', 2), (''hasOwnProperty'', 1),
      (''__lookupGetter__'', 1), (''__lookupSetter__'', 1), (''isPrototypeOf'', 1),
      (''propertyIsEnumerable'', 1), (''toString'', 0), (''valueOf'', 0),
      (''toLocaleString'', 0)]"

definition objectMethods :: "(string \<times> nat) list" where
  "objectMethods =
     [(''assign'', 2), (''getOwnPropertyDescriptor'', 2), (''getOwnPropertyDescriptors'', 1),
      (''getOwnPropertyNames'', 1), (''getOwnPropertySymbols'', 1), (''hasOwn'', 2), (''is'', 2),
      (''preventExtensions'', 1), (''seal'', 1), (''create'', 2), (''defineProperties'', 2),
      (''defineProperty'', 3), (''freeze'', 1), (''getPrototypeOf'', 1), (''setPrototypeOf'', 2),
      (''isExtensible'', 1), (''isFrozen'', 1), (''isSealed'', 1), (''keys'', 1), (''entries'', 1),
      (''fromEntries'', 1), (''values'', 1), (''groupBy'', 2)]"

definition functionPrototypeMethods :: "(string \<times> nat) list" where
  "functionPrototypeMethods = [(''apply'', 2), (''bind'', 1), (''call'', 1), (''toString'', 0)]"

definition arrayPrototypeMethods :: "(string \<times> nat) list" where
  "arrayPrototypeMethods =
     [(''at'', 1), (''concat'', 1), (''copyWithin'', 2), (''fill'', 1), (''find'', 1),
      (''findIndex'', 1), (''findLast'', 1), (''findLastIndex'', 1), (''lastIndexOf'', 1),
      (''pop'', 0), (''push'', 1), (''reverse'', 0), (''shift'', 0), (''unshift'', 1),
      (''slice'', 2), (''sort'', 1), (''splice'', 2), (''includes'', 1), (''indexOf'', 1),
      (''join'', 1), (''keys'', 0), (''entries'', 0), (''values'', 0), (''forEach'', 1),
      (''filter'', 1), (''flat'', 0), (''flatMap'', 1), (''map'', 1), (''every'', 1),
      (''some'', 1), (''reduce'', 1), (''reduceRight'', 1), (''toLocaleString'', 0),
      (''toString'', 0), (''toReversed'', 0), (''toSorted'', 1), (''toSpliced'', 2),
      (''with'', 2)]"

definition arrayMethods :: "(string \<times> nat) list" where
  "arrayMethods = [(''isArray'', 1), (''from'', 1), (''fromAsync'', 1), (''of'', 0)]"

definition stringPrototypeMethods :: "(string \<times> nat) list" where
  "stringPrototypeMethods =
     [(''charAt'', 1), (''charCodeAt'', 1), (''endsWith'', 1), (''includes'', 1),
      (''indexOf'', 1), (''replace'', 2), (''slice'', 2), (''split'', 2), (''startsWith'', 1),
      (''substring'', 2), (''toLowerCase'', 0), (''toString'', 0), (''toUpperCase'', 0),
      (''trim'', 0), (''valueOf'', 0)]"

definition demoRealm :: heap where
  "demoRealm =
     [ \<lparr> objProto = None, objArray = None, objCallable = False,
         objProps = [(''constructor'', Data (VObj 1) True False True)]
                    @ methodsFrom 9 objectPrototypeMethods
                    @ [(''__proto__'', Accessor ProtoAccessor True)] \<rparr>,
       \<lparr> objProto = Some 2, objArray = None, objCallable = True,
         objProps = [(''length'', Data (VNum (Finite 1)) False False True),
                     (''name'', Data (VStr ''Object'') False False True),
                     (''prototype'', Data (VObj 0) False False False)]
                    @ methodsFrom 19 objectMethods \<rparr>,
       \<lparr> objProto = Some 0, objArray = None, objCallable = True,
         objProps = [(''length'', Data (VNum (Finite 0)) False False True),
                     (''name'', Data (VStr []) False False True),
                     (''arguments'', Accessor ThrowTypeError True),
                     (''caller'', Accessor ThrowTypeError True),
                     (''constructor'', Data (VObj 3) True False True)]
                    @ methodsFrom 42 functionPrototypeMethods \<rparr>,
       \<lparr> objProto = Some 2, objArray = None, objCallable = True,
         objProps = [(''length'', Data (VNum (Finite 1)) False False True),
                     (''name'', Data (VStr ''Function'') False False True),
                     (''prototype'', Data (VObj 2) False False False)] \<rparr>,
       \<lparr> objProto = Some 0, objArray = Some 0, objCallable = False,
         objProps = [(''constructor'', Data (VObj 5) True False True)]
                    @ methodsFrom 46 arrayPrototypeMethods \<rparr>,
       \<lparr> objProto = Some 2, objArray = None, objCallable = True,
         objProps = [(''length'', Data (VNum (Finite 1)) False False True),
                     (''name'', Data (VStr ''Array'') False False True),
                     (''prototype'', Data (VObj 4) False False False)]
                    @ methodsFrom 84 arrayMethods \<rparr>,
       \<lparr> objProto = Some 0, objArray = None, objCallable = False,
         objProps = methodsFrom 88 stringPrototypeMethods \<rparr>,
       \<lparr> objProto = Some 0, objArray = None, objCallable = False, objProps = [] \<rparr>,
       \<lparr> objProto = Some 0, objArray = None, objCallable = False, objProps = [] \<rparr> ]
     @ map builtinFunction
         (objectPrototypeMethods @ objectMethods @ functionPrototypeMethods
          @ arrayPrototypeMethods @ arrayMethods @ stringPrototypeMethods)"

text \<open>
  The two coercions of the example host, written out for the values of the examples:
  a number, \<open>null\<close> and a boolean as a length, and a whole number as a key.
\<close>

definition demoArrayLength :: "heap \<Rightarrow> jsvalue \<Rightarrow> error + nat" where
  "demoArrayLength heap v =
     (case v of
        VNum (Finite q) \<Rightarrow>
          if q = of_int \<lfloor>q\<rfloor> \<and> 0 \<le> q \<and> q < 4294967296 then Inr (nat \<lfloor>q\<rfloor>) else Inl RangeError
      | VNull \<Rightarrow> Inr 0
      | VBool b \<Rightarrow> Inr (if b then 1 else 0)
      | _ \<Rightarrow> Inl RangeError)"

definition demoPropertyKey :: "heap \<Rightarrow> jsvalue \<Rightarrow> error + string" where
  "demoPropertyKey heap v =
     (case v of
        VNum (Finite q) \<Rightarrow>
          if q = of_int \<lfloor>q\<rfloor> \<and> 0 \<le> q then Inr (indexKey (nat \<lfloor>q\<rfloor>)) else Inr ''NaN''
      | VNum PlusInfinity \<Rightarrow> Inr ''Infinity''
      | VNum MinusInfinity \<Rightarrow> Inr ''-Infinity''
      | _ \<Rightarrow> Inr ''[object Object]'')"

definition demoRegistry :: string where
  "demoRegistry =
     '' - [settings](https://gist.github.com/demo/settings) `json` Patch the settings''
     @ [CHR 0x0A]
     @ '' - [gone](https://gist.github.com/demo/gone) Files that are not on disk''"

definition demoLinks :: "gistLink list" where
  "demoLinks = parseGistLinks demoRegistry"

definition demoBundles :: "string \<Rightarrow> error + ((string \<times> string) list \<times> string)" where
  "demoBundles ref =
     (if ref = ''registry''
      then Inr ([(''mix.md'', demoRegistry)], ''https://gist.github.com/registry'')
      else if ref = ''settings''
      then Inr ([(''appsettings.json.patch'', demoPatchText), (''_init'', ''npm install'')],
                ''https://gist.github.com/demo/settings'')
      else if ref = ''gone''
      then Inr ([(''MyApp/missing.txt'', ''text'')], ''https://gist.github.com/demo/gone'')
      else if ref = ''evil''
      then Inr ([(''readme.txt'', ''text''), (''../evil.txt'', ''text'')],
                ''https://gist.github.com/demo/evil'')
      else Inl (Error ''HTTP 404''))"

definition demoHost :: host where
  "demoHost =
     \<lparr> isWin32 = False,
       cwd = ''/work'',
       homedir = ''/home/user'',
       pathResolve = (\<lambda>base p. if startsWith p ''/'' then p else base @ ''/'' @ p),
       pathDirname = posixDirname,
       pathJoin = (\<lambda>dir p. dir @ ''/'' @ p),
       pathBasename = (\<lambda>p. last (splitStr p ''/'')),
       regExp = (\<lambda>source. None),
       jsonParse = demoParse,
       jsonStringify = demoStringify,
       realm = demoRealm,
       objectPrototype = 0,
       arrayPrototype = 4,
       stringPrototype = 6,
       numberPrototype = 7,
       booleanPrototype = 8,
       toArrayLength = demoArrayLength,
       toPropertyKey = demoPropertyKey,
       decodeURIComponent = Some,
       base64Decode = (\<lambda>text. text),
       getGistFiles = demoBundles,
       promptAnswer = True,
       spawnSync = (\<lambda>executable args dir fs. (fs, False)) \<rparr>"

definition demoConfig :: config where
  "demoConfig =
     \<lparr> gistLinksId = ''registry'', silent = True, forceApproval = True, preserve = False,
       outDir = None, replaceTokens = [] \<rparr>"

definition demoFs :: fs where
  "demoFs = [(''/'', Dir), (''/work'', Dir), (''/work/appsettings.json'', File ''{}'')]"

definition demoPatchFile :: resolvedFile where
  "demoPatchFile =
     \<lparr> rfPath = ''/work/appsettings.json.patch'', rfContent = demoPatchText,
       rfOriginalName = ''appsettings.json.patch'' \<rparr>"

definition demoEmptyFs :: fs where
  "demoEmptyFs = [(''/'', Dir), (''/work'', Dir)]"

definition demoBrokenFs :: fs where
  "demoBrokenFs = [(''/'', Dir), (''/work'', Dir), (''/work/appsettings.json'', File ''not json'')]"

section \<open>Properties of the project name and of the substitution\<close>

lemma toUpperChar_sep: "toUpperChar c \<in> set sepChars \<Longrightarrow> c \<in> set sepChars"
  unfolding toUpperChar_def lowerLetters_def upperLetters_def sepChars_def
  by (simp split: if_splits)

lemma includesStr_single: "includesStr s [c] = (c \<in> set s)"
  by (induction s) (auto simp: startsWith_def)

lemma splitOn_frag:
  "\<forall>c\<in>set acc. \<not> P c \<Longrightarrow> \<forall>w\<in>set (splitOn P acc s). \<forall>c\<in>set w. \<not> P c"
proof (induction s arbitrary: acc)
  case Nil
  then show ?case by simp
next
  case (Cons a s)
  show ?case
  proof (cases "P a")
    case True
    have "\<forall>w\<in>set (splitOn P [] s). \<forall>c\<in>set w. \<not> P c"
      by (rule Cons.IH) simp
    with True Cons.prems show ?thesis by simp
  next
    case False
    with Cons.prems have "\<forall>c\<in>set (a # acc). \<not> P c" by simp
    then have "\<forall>w\<in>set (splitOn P (a # acc) s). \<forall>c\<in>set w. \<not> P c"
      by (rule Cons.IH)
    with False show ?thesis by simp
  qed
qed

lemma join_nil: "sep = [] \<Longrightarrow> join sep xs = concat xs"
  by (induction sep xs rule: join.induct) auto

lemma capitalize_sep:
  "c \<in> set (capitalize w) \<Longrightarrow> c \<in> set sepChars \<Longrightarrow> \<exists>d\<in>set w. d \<in> set sepChars"
  unfolding capitalize_def toUpperCase_def
  by (cases w) (auto dest: toUpperChar_sep)

text \<open>
  Claim C10. For every name that is neither \<open>null\<close> nor empty, \<open>sanitizeProjectName\<close>
  returns a string, and that string contains none of the separator characters space,
  hyphen, plus and underscore.
\<close>

theorem sanitizeProjectName_no_separator:
  assumes "name \<noteq> []"
  shows "\<exists>r. sanitizeProjectName (Some name) = Some r \<and> (\<forall>c\<in>set sepChars. c \<notin> set r)"
proof (cases "list_ex (\<lambda>c. includesStr name [c]) sepChars")
  case False
  then have "\<forall>c\<in>set sepChars. c \<notin> set name"
    by (simp add: list_ex_iff includesStr_single)
  with assms False show ?thesis
    by (simp add: sanitizeProjectName_def)
next
  case True
  let ?ws = "filter (\<lambda>w. w \<noteq> []) (splitOn (\<lambda>c. c \<in> set sepChars) [] name)"
  have frag: "\<forall>w\<in>set ?ws. \<forall>c\<in>set w. c \<notin> set sepChars"
    using splitOn_frag [of "[]" "\<lambda>c. c \<in> set sepChars" name] by fastforce
  have "\<forall>c\<in>set sepChars. c \<notin> set (concat (map capitalize ?ws))"
  proof (intro ballI notI)
    fix c assume c: "c \<in> set sepChars" and "c \<in> set (concat (map capitalize ?ws))"
    then obtain w where w: "w \<in> set ?ws" and "c \<in> set (capitalize w)" by auto
    with c obtain d where "d \<in> set w" "d \<in> set sepChars"
      using capitalize_sep by blast
    with frag w show False by blast
  qed
  with assms True show ?thesis
    by (simp add: sanitizeProjectName_def join_nil)
qed

theorem sanitizeProjectName_no_separator_witness:
  "''my_app'' \<noteq> [] \<and> sanitizeProjectName (Some ''my_app'') = Some ''MyApp''
   \<and> set sepChars \<inter> set ''MyApp'' = {}"
proof -
  have h: "''my_app'' \<noteq> []" by simp
  have e: "sanitizeProjectName (Some ''my_app'') = Some ''MyApp''" by code_simp
  from sanitizeProjectName_no_separator [OF h] obtain r
    where r: "sanitizeProjectName (Some ''my_app'') = Some r" "\<forall>c\<in>set sepChars. c \<notin> set r"
    by blast
  from r(1) e have "r = ''MyApp''" by (simp only: option.inject)
  with r(2) have "set sepChars \<inter> set ''MyApp'' = {}" by blast
  with h e show ?thesis by (intro conjI)
qed

subsection \<open>Project name \<open>my_app\<close>\<close>

lemma sanitize_my_app: "sanitizeProjectName (Some ''my_app'') = Some ''MyApp''"
  by code_simp

lemma replaceMyApp_MyApp:
  "map (\<lambda>i. replaceMyApp True [] i (Some ''MyApp'')) placeholders
     = [''MyApp'', ''MyApp'', ''My App'', ''my-app'', ''myapp'', ''myapp'']"
  "map (\<lambda>i. replaceMyApp False [] i (Some ''MyApp'')) placeholders
     = [''MyApp'', ''MyApp'', ''My App'', ''my-app'', ''myapp'', ''myapp'']"
  by code_simp+

text \<open>
  What the claim lists is the result for the name as supplied, \<open>my_app\<close>, which is what
  \<open>deleteGists\<close> passes on; \<open>writeGistFile\<close> sanitizes the name first.
\<close>

lemma replaceMyApp_my_app_unsanitized:
  "map (\<lambda>i. replaceMyApp False [] i (Some ''my_app'')) placeholders
     = [''my_app'', ''myapp'', ''myapp'', ''myapp'', ''myapp'', ''my_app'']"
  by code_simp

text \<open>
  Claim C6, as stated, fails: with the project name \<open>my_app\<close>, sanitized before the
  substitution, the placeholder \<open>MyApp\<close> does not become \<open>myapp\<close>.
\<close>

theorem my_app_MyApp_counterexample:
  "replaceMyApp False [] ''MyApp'' (sanitizeProjectName (Some ''my_app'')) \<noteq> ''myapp''"
  by code_simp

text \<open>
  Claim C6, amended. The project name \<open>my_app\<close> is sanitized to \<open>MyApp\<close>, and the
  substitution with the sanitized name gives: \<open>My_App\<close> to \<open>MyApp\<close>, \<open>MyApp\<close> to \<open>MyApp\<close>,
  \<open>My App\<close> to \<open>My App\<close>, \<open>my-app\<close> to \<open>my-app\<close>, \<open>myapp\<close> to \<open>myapp\<close> and \<open>my_app\<close> to
  \<open>myapp\<close>, the lower-case form of the sanitized name.
\<close>

theorem my_app_substitutions:
  "sanitizeProjectName (Some ''my_app'') = Some ''MyApp'' \<and>
   map (\<lambda>i. replaceMyApp w [] i (sanitizeProjectName (Some ''my_app''))) placeholders
     = [''MyApp'', ''MyApp'', ''My App'', ''my-app'', ''myapp'', ''myapp'']"
  by (cases w) (simp_all only: sanitize_my_app replaceMyApp_MyApp)

subsection \<open>Substituting twice\<close>

















text \<open>
  On Windows and without replace tokens, \<open>replaceMyApp\<close> is the six placeholder
  replacements and nothing else.
\<close>

lemma replaceMyApp_placeholders:
  "input \<noteq> [] \<Longrightarrow> p \<noteq> [] \<Longrightarrow> replaceMyApp True [] input (Some p) = replacePlaceholders input p"
  by (simp add: replaceMyApp_def)


text \<open>
  Two more project names without a placeholder spelling for which the second pass
  expands again, now in an input that is a single placeholder: the lowercase form of
  \<open>aMy-App\<close> contains the placeholder \<open>my-app\<close>, and the replacement text \<open>a$&\<close> is a
  template that puts the matched placeholder back.
\<close>

lemma replace_twice_name_examples:
  "\<not> list_ex (includesStr ''aMy-App'') placeholders
   \<and> replacePlaceholders ''myapp'' ''aMy-App'' = ''amy-app''
   \<and> replacePlaceholders (replacePlaceholders ''myapp'' ''aMy-App'') ''aMy-App'' = ''aa-my-app''
   \<and> \<not> list_ex (includesStr ''a$&'') placeholders
   \<and> replacePlaceholders ''MyApp'' ''a$&'' = ''aMyApp''
   \<and> replacePlaceholders (replacePlaceholders ''MyApp'' ''a$&'') ''a$&'' = ''aaMyApp''"
  by code_simp



subsection \<open>Tags of a record\<close>











subsection \<open>The user of a record\<close>

lemma urlUser_legacy:
  assumes "startsWith url ''https://''"
    and "nthOpt (splitStr (drop (length ''https://'') url) ''/'') 1 \<in> {Some ''gistlyn'', Some ''mythz''}"
  shows "urlUser url = Some ''ServiceStack''"
  using assms by (auto simp: urlUser_def)

lemma startsWith_append: "startsWith s (p @ q) \<Longrightarrow> startsWith s p"
proof -
  assume "startsWith s (p @ q)"
  then have "take (length (p @ q)) s = p @ q" by (simp add: startsWith_def)
  then have "take (length p) (take (length (p @ q)) s) = take (length p) (p @ q)"
    by (simp only:)
  then show ?thesis by (simp add: startsWith_def min_def)
qed

lemma startsWith_gist_https: "startsWith url ''https://gist.github.com'' \<Longrightarrow> startsWith url ''https://''"
  using startsWith_append [of url "''https://''" "''gist.github.com''"] by simp

lemma startsWith_eq: "startsWith s p \<Longrightarrow> s = p @ drop (length p) s"
  by (metis append_take_drop_id startsWith_def)

lemma repo_not_gist:
  assumes "startsWith url ''https://github.com/''"
  shows "\<not> startsWith url ''https://gist.github.com''"
proof
  assume "startsWith url ''https://gist.github.com''"
  then have "startsWith url ''https://gis''"
    using startsWith_append [of url "''https://gis''" "''t.github.com''"] by simp
  moreover from assms have "startsWith url ''https://git''"
    using startsWith_append [of url "''https://git''" "''hub.com/''"] by simp
  ultimately show False by (simp add: startsWith_def)
qed

lemma split_host: "splitStr (''github.com/'' @ r) ''/'' = ''github.com'' # splitStr r ''/''"
  by (simp add: splitStr_def startsWith_def)

lemma repo_owner_segment:
  assumes "startsWith url ''https://github.com/''"
  shows "nthOpt (splitStr (drop (length ''https://github.com/'') url) ''/'') 0 = authorSegment url"
proof -
  from startsWith_eq [OF assms] obtain r where u: "url = ''https://github.com/'' @ r"
    and r: "r = drop (length ''https://github.com/'') url" by blast
  have "drop (length ''https://'') url = ''github.com/'' @ r" by (subst u) simp
  then have "authorSegment url = nthOpt (''github.com'' # splitStr r ''/'') 1"
    by (simp only: authorSegment_def split_host)
  also have "\<dots> = nthOpt (splitStr r ''/'') 0" by (simp add: nthOpt_def)
  finally show ?thesis using r by simp
qed

lemma parseGistLink_user:
  assumes "parseGistLink line = Some l"
  shows "linkUser l = (if startsWith (linkUrl l) ''https://gist.github.com'' then urlUser (linkUrl l)
                      else if startsWith (linkUrl l) ''https://github.com/''
                      then nthOpt (splitStr (drop (length ''https://github.com/'') (linkUrl l)) ''/'') 0
                      else urlUser (linkUrl l))"
  using assms
  by (auto simp: parseGistLink_def Let_def split: if_splits option.splits prod.splits)

text \<open>
  Claim C3 at a repository URL. The record of a line whose URL is
  \<open>https://github.com/mythz/repo\<close> has the user \<open>mythz\<close>, and that of
  \<open>https://github.com/gistlyn/repo\<close> the user \<open>gistlyn\<close>, where the claim gives
  \<open>ServiceStack\<close>; the handle is rewritten for the same author in a gist URL and in the
  URL of another host.
\<close>

lemma repo_url_user_examples:
  "map_option linkUser (parseGistLink '' - [x](https://github.com/mythz/repo) `ui` Template'')
     = Some (Some ''mythz'')
   \<and> map_option linkUser (parseGistLink '' - [x](https://github.com/gistlyn/repo) `ui` Template'')
     = Some (Some ''gistlyn'')
   \<and> map_option linkUser (parseGistLink '' - [x](https://gist.github.com/mythz/67d6) `ui` Template'')
     = Some (Some ''ServiceStack'')
   \<and> map_option linkUser (parseGistLink '' - [x](https://gitlab.com/mythz/repo) `ui` Template'')
     = Some (Some ''ServiceStack'')"
  by code_simp

text \<open>
  Claim C3: what \<open>parseGistLink\<close> does with the author segment. For every line that
  parses: when the URL starts with \<open>https://\<close> but not with \<open>https://github.com/\<close> (a gist
  URL is such a URL) and its author segment is one of the two legacy handles, the user
  of the record is \<open>ServiceStack\<close>. When the URL starts with \<open>https://github.com/\<close>, the
  user of the record is the author segment as it is written: the assignment
  \<open>user = parts[0]\<close> of that branch undoes the rewriting, so with a legacy handle the
  user is not \<open>ServiceStack\<close>, against the claim.
\<close>

theorem user_normalization:
  assumes "parseGistLink line = Some l"
  shows "(startsWith (linkUrl l) ''https://'' \<and> \<not> startsWith (linkUrl l) ''https://github.com/''
            \<and> authorSegment (linkUrl l) \<in> {Some ''gistlyn'', Some ''mythz''}
          \<longrightarrow> linkUser l = Some ''ServiceStack'')
       \<and> (startsWith (linkUrl l) ''https://github.com/'' \<longrightarrow> linkUser l = authorSegment (linkUrl l))
       \<and> (startsWith (linkUrl l) ''https://github.com/''
            \<and> authorSegment (linkUrl l) \<in> {Some ''gistlyn'', Some ''mythz''}
          \<longrightarrow> linkUser l \<noteq> Some ''ServiceStack'')"
proof -
  have a: "linkUser l = Some ''ServiceStack''"
    if h: "startsWith (linkUrl l) ''https://''" "\<not> startsWith (linkUrl l) ''https://github.com/''"
      "authorSegment (linkUrl l) \<in> {Some ''gistlyn'', Some ''mythz''}"
  proof -
    from h(1,3) have "urlUser (linkUrl l) = Some ''ServiceStack''"
      by (simp add: urlUser_legacy authorSegment_def)
    with h(2) parseGistLink_user [OF assms] show ?thesis by simp
  qed
  have b: "linkUser l = authorSegment (linkUrl l)" if h: "startsWith (linkUrl l) ''https://github.com/''"
    using parseGistLink_user [OF assms] repo_not_gist [OF h] repo_owner_segment [OF h] h by simp
  from a b show ?thesis by auto
qed

theorem user_normalization_witness:
  "map_option linkUser (parseGistLink '' - [redis](https://gist.github.com/gistlyn/67d6) `db` Use Redis'')
     = Some (Some ''ServiceStack'')
   \<and> map_option linkUser (parseGistLink '' - [blazor](https://github.com/mythz/repo) `ui` Blazor template'')
     = Some (authorSegment ''https://github.com/mythz/repo'')
   \<and> authorSegment ''https://github.com/mythz/repo'' = Some ''mythz''
   \<and> map_option linkUser (parseGistLink '' - [blazor](https://github.com/mythz/repo) `ui` Blazor template'')
     \<noteq> Some (Some ''ServiceStack'')"
proof -
  let ?g = "'' - [redis](https://gist.github.com/gistlyn/67d6) `db` Use Redis''"
  let ?r = "'' - [blazor](https://github.com/mythz/repo) `ui` Blazor template''"
  have "parseGistLink ?g \<noteq> None" by code_simp
  then obtain lg where lg: "parseGistLink ?g = Some lg" by blast
  have "map_option linkUrl (parseGistLink ?g) = Some ''https://gist.github.com/gistlyn/67d6''"
    by code_simp
  with lg have ug: "linkUrl lg = ''https://gist.github.com/gistlyn/67d6''" by simp
  have hg: "startsWith ''https://gist.github.com/gistlyn/67d6'' ''https://''
            \<and> \<not> startsWith ''https://gist.github.com/gistlyn/67d6'' ''https://github.com/''
            \<and> authorSegment ''https://gist.github.com/gistlyn/67d6'' \<in> {Some ''gistlyn'', Some ''mythz''}"
    by code_simp
  from user_normalization [OF lg, unfolded ug] hg have "linkUser lg = Some ''ServiceStack''"
    by blast
  with lg have g: "map_option linkUser (parseGistLink ?g) = Some (Some ''ServiceStack'')" by simp
  have "parseGistLink ?r \<noteq> None" by code_simp
  then obtain lr where lr: "parseGistLink ?r = Some lr" by blast
  have "map_option linkUrl (parseGistLink ?r) = Some ''https://github.com/mythz/repo''"
    by code_simp
  with lr have ur: "linkUrl lr = ''https://github.com/mythz/repo''" by simp
  have hr: "startsWith ''https://github.com/mythz/repo'' ''https://github.com/''
            \<and> authorSegment ''https://github.com/mythz/repo'' \<in> {Some ''gistlyn'', Some ''mythz''}"
    by code_simp
  from user_normalization [OF lr, unfolded ur] hr
  have "linkUser lr = authorSegment ''https://github.com/mythz/repo''"
    and "linkUser lr \<noteq> Some ''ServiceStack''" by blast+
  with lr have r: "map_option linkUser (parseGistLink ?r)
      = Some (authorSegment ''https://github.com/mythz/repo'')"
    and n: "map_option linkUser (parseGistLink ?r) \<noteq> Some (Some ''ServiceStack'')" by simp_all
  have s: "authorSegment ''https://github.com/mythz/repo'' = Some ''mythz''" by code_simp
  from g r s n show ?thesis by (intro conjI)
qed

section \<open>Properties of the pipelines\<close>

subsection \<open>Path traversal\<close>

lemma includesStr_dotdot: "includesStr t ''..'' \<Longrightarrow> t \<noteq> ''.'' \<and> t \<noteq> []"
  by (auto simp: startsWith_def)

lemma resolveBasePath_traversal:
  "includesStr t ''..'' \<Longrightarrow>
   resolveBasePath h fs (Some t) exSuffix = Inl (Error (''Invalid location '' @ sq @ t @ sq @ exSuffix))"
  using includesStr_dotdot [of t] by (simp add: resolveBasePath_def)

lemma resolveFiles_traversal_head:
  "includesStr fileName ''..'' \<Longrightarrow>
   resolveFiles h cfg fs gistAlias url to projName ((fileName, content) # files) resolved init
     = Inl (Error (''Invalid file name '' @ sq @ fileName @ sq @ '' from '' @ sq @ url @ sq))"
  by simp

lemma resolveFiles_traversal:
  "(fileName, content) \<in> set files \<Longrightarrow> includesStr fileName ''..'' \<Longrightarrow>
   \<exists>e. resolveFiles h cfg fs gistAlias url to projName files resolved init = Inl e"
proof (induction files arbitrary: resolved init)
  case Nil
  then show ?case by simp
next
  case (Cons f files)
  obtain fn c where f: "f = (fn, c)" by (cases f)
  show ?case
  proof (cases "includesStr fn ''..''")
    case True
    with f show ?thesis by simp
  next
    case False
    with Cons.prems f have mem: "(fileName, content) \<in> set files" by auto
    note ih = Cons.IH [OF mem Cons.prems(2)]
    show ?thesis
    proof (cases "resolveBasePath h fs (Some to)
        ('' required by '' @ (if gistAlias \<noteq> [] then sq @ gistAlias @ sq @ '' '' else []) @ url)")
      case (Inl e)
      with False f show ?thesis by (simp add: Let_def)
    next
      case (Inr basePath)
      with False f ih show ?thesis by (simp add: Let_def)
    qed
  qed
qed

text \<open>
  Claim C1. A location hint that contains \<open>..\<close> makes \<open>resolveBasePath\<close> throw the error
  \<open>Invalid location\<close>; it returns no path. In the first loop of \<open>writeGistFile\<close> a file
  name that contains \<open>..\<close> throws \<open>Invalid file name\<close> before anything is resolved for
  that file; and a bundle with such a file name makes \<open>writeGistFile\<close> throw with the
  file system unchanged and nothing printed or spawned.
\<close>

theorem traversal_rejected:
  "(includesStr hint ''..'' \<longrightarrow>
      resolveBasePath h fs (Some hint) exSuffix
        = Inl (Error (''Invalid location '' @ sq @ hint @ sq @ exSuffix)))
   \<and> (includesStr fileName ''..'' \<longrightarrow>
      resolveFiles h cfg fs gistAlias url to projName ((fileName, content) # files) resolved init
        = Inl (Error (''Invalid file name '' @ sq @ fileName @ sq @ '' from '' @ sq @ url @ sq)))
   \<and> (getGistFiles h gistIdOrUrl = Inr (bundle, url) \<and> (fileName, content) \<in> set bundle
        \<and> includesStr fileName ''..'' \<longrightarrow>
      (\<exists>e. writeGistFile h cfg fs gistIdOrUrl gistAlias to projName0 = (Some e, fs, [])))"
proof (intro conjI impI)
  assume "includesStr hint ''..''"
  then show "resolveBasePath h fs (Some hint) exSuffix
        = Inl (Error (''Invalid location '' @ sq @ hint @ sq @ exSuffix))"
    by (rule resolveBasePath_traversal)
next
  assume "includesStr fileName ''..''"
  then show "resolveFiles h cfg fs gistAlias url to projName ((fileName, content) # files) resolved init
        = Inl (Error (''Invalid file name '' @ sq @ fileName @ sq @ '' from '' @ sq @ url @ sq))"
    by (rule resolveFiles_traversal_head)
next
  assume a: "getGistFiles h gistIdOrUrl = Inr (bundle, url) \<and> (fileName, content) \<in> set bundle
        \<and> includesStr fileName ''..''"
  then obtain e where
    "resolveFiles h cfg fs gistAlias url to (sanitizeProjectName projName0) bundle [] None = Inl e"
    using resolveFiles_traversal by blast
  with a show "\<exists>e. writeGistFile h cfg fs gistIdOrUrl gistAlias to projName0 = (Some e, fs, [])"
    by (simp add: writeGistFile_def)
qed

theorem traversal_rejected_witness:
  "resolveBasePath demoHost demoFs (Some ''src/../../etc'') '' required by x''
     = Inl (Error (''Invalid location '' @ sq @ ''src/../../etc'' @ sq @ '' required by x''))
   \<and> writeGistFile demoHost demoConfig demoFs ''evil'' ''evil'' ''.'' (Some ''Acme'')
     = (Some (Error (''Invalid file name '' @ sq @ ''../evil.txt'' @ sq @ '' from '' @ sq
                     @ ''https://gist.github.com/demo/evil'' @ sq)), demoFs, [])"
proof -
  have h1: "includesStr ''src/../../etc'' ''..''" by code_simp
  have h2: "getGistFiles demoHost ''evil''
      = Inr ([(''readme.txt'', ''text''), (''../evil.txt'', ''text'')], ''https://gist.github.com/demo/evil'')
    \<and> (''../evil.txt'', ''text'') \<in> set [(''readme.txt'', ''text''), (''../evil.txt'', ''text'')]
    \<and> includesStr ''../evil.txt'' ''..''"
    by code_simp
  have e: "writeGistFile demoHost demoConfig demoFs ''evil'' ''evil'' ''.'' (Some ''Acme'')
     = (Some (Error (''Invalid file name '' @ sq @ ''../evil.txt'' @ sq @ '' from '' @ sq
                     @ ''https://gist.github.com/demo/evil'' @ sq)), demoFs, [])"
    by code_simp
  from traversal_rejected [of "''src/../../etc''" demoHost demoFs "'' required by x''"
      "''../evil.txt''" demoConfig "''evil''" "''https://gist.github.com/demo/evil''" "''.''" None
      "''text''" "[]" "[]" None "''evil''" "[(''readme.txt'', ''text''), (''../evil.txt'', ''text'')]" "Some ''Acme''"]
    h1 h2 e
  show ?thesis by blast
qed

subsection \<open>Command sandbox\<close>




















subsection \<open>JSON patch\<close>

text \<open>
  The two examples of the specification, in the runtime of the example host, and four
  more patches: an operation of an unknown kind still creates the objects on its way,
  an element of an array is replaced, a number that is not whole is added, and a key
  that names an array index is printed before the others.
\<close>

lemma patch_add_example:
  "patchDocument demoHost (JObj []) demoPatch = Inr demoPatched"
  by code_simp

lemma patch_remove_example:
  "patchDocument demoHost demoPatched demoRemove = Inr demoRemoved"
  by code_simp

lemma patch_unknown_example:
  "patchDocument demoHost (JObj []) (JArr [patchOperationJson ''test'' ''/a/b'' (JNum (Finite 1))])
     = Inr (JObj [(''a'', JObj [])])"
  by code_simp

lemma patch_array_example:
  "patchDocument demoHost (JObj [(''a'', JArr [JNum (Finite 1), JNum (Finite 2)])])
     (JArr [patchOperationJson ''replace'' ''/a/0'' (JNum (Finite 9))])
     = Inr (JObj [(''a'', JArr [JNum (Finite 9), JNum (Finite 2)])])"
  by code_simp

lemma patch_fraction_example:
  "patchDocument demoHost (JObj [(''a'', JNum (Finite 1))])
     (JArr [patchOperationJson ''replace'' ''/a'' (JNum (Finite (3 / 2)))])
     = Inr (JObj [(''a'', JNum (Finite (3 / 2)))])"
  by code_simp

lemma patch_order_example:
  "patchDocument demoHost (JObj [(''a'', JNull)])
     (JArr [patchOperationJson ''add'' ''/b'' JNull, patchOperationJson ''add'' ''/1'' JNull])
     = Inr (JObj [(''1'', JNull), (''a'', JNull), (''b'', JNull)])"
  by code_simp

text \<open>
  Claim C7 at a segment that every object inherits. For the target \<open>{}\<close> and the patch
  \<open>[{"op":"add","path":"/constructor/b","value":1}]\<close> the test \<open>key in target\<close> is true for
  \<open>constructor\<close>, which the target inherits from \<open>Object.prototype\<close>, so no empty object
  is created at this missing segment: the walk goes on in the built-in function
  \<open>Object\<close>, which gets the property \<open>b\<close>, and the document stays \<open>{}\<close> where the claim
  gives \<open>{"constructor":{"b":1}}\<close>. \<open>patchJsonFile\<close> returns, with \<open>{}\<close> written back to the
  target file.
\<close>

theorem patch_inherited_segment:
  "patchDocument demoHost (JObj []) demoInherited = Inr (JObj [])
   \<and> patchDocument demoHost (JObj []) demoInherited
        \<noteq> Inr (JObj [(''constructor'', JObj [(''b'', JNum (Finite 1))])])
   \<and> getProperty (realm demoHost) (objectPrototype demoHost) ''constructor'' = Inr (VObj 1)
   \<and> getProperty (realm demoHost) 1 ''b'' = Inr VUndefined
   \<and> (case allocJson demoHost (realm demoHost) (JObj []) of
         (heap1, targetJson) \<Rightarrow>
           (case applyPatch demoHost heap1 targetJson demoInherited of
              Inl e \<Rightarrow> False
            | Inr heap2 \<Rightarrow> getProperty heap2 1 ''b'' = Inr (VNum (Finite 1))))
   \<and> patchJsonFile demoHost
        [(''/'', Dir), (''/work'', Dir), (''/work/appsettings.json'', File ''{ }''),
         (''/work/appsettings.json.patch'', File demoInheritedText)]
        ''/work/appsettings.json'' ''/work/appsettings.json.patch''
      = (None, [(''/'', Dir), (''/work'', Dir), (''/work/appsettings.json'', File ''{}''),
                (''/work/appsettings.json.patch'', File demoInheritedText)])"
  by code_simp

subsection \<open>JSON patch files\<close>

lemma writeFileSync_result:
  "writeFileSync h fs p c = Inr fs' \<Longrightarrow> map_of fs' = (map_of fs)(p \<mapsto> File c)"
  by (auto simp: writeFileSync_def update_conv' split: if_splits)

lemma endsWith_length: "endsWith s p \<Longrightarrow> length p \<le> length s"
proof -
  assume "endsWith s p"
  then have "take (length (rev p)) (rev s) = rev p" by (simp add: endsWith_def startsWith_def)
  then have "length (take (length (rev p)) (rev s)) = length (rev p)" by (simp only:)
  then show ?thesis by simp
qed

lemma patch_target_differs: "endsWith s ''.json.patch'' \<Longrightarrow> dropEnd 6 s \<noteq> s"
proof -
  assume "endsWith s ''.json.patch''"
  then have "length ''.json.patch'' \<le> length s" by (rule endsWith_length)
  then have "length (dropEnd 6 s) \<noteq> length s" by (simp add: dropEnd_def)
  then show ?thesis by auto
qed

lemma unlinkSync_file:
  "map_of fs p = Some (File c) \<Longrightarrow> unlinkSync fs p = Inr (AList.delete p fs)"
  by (simp add: unlinkSync_def)

lemma not_exists_deleted: "\<not> existsSync (AList.delete p fs) p"
  by (simp add: existsSync_def delete_conv')

text \<open>
  \<open>patchJsonFile\<close> on a target that exists: when it returns, both files were parsed, the
  operations were done, and the target holds the text of the patched document; when it
  throws, nothing was written.
\<close>

lemma patchJsonFile_applies:
  assumes "patchJsonFile h fs t p = (None, fs')" and "existsSync fs t"
  shows "\<exists>targetText targetJson patchText patchJson patched.
           readFileSync fs t = Inr targetText \<and> jsonParse h targetText = Some targetJson
           \<and> readFileSync fs p = Inr patchText \<and> jsonParse h patchText = Some patchJson
           \<and> patchDocument h targetJson patchJson = Inr patched
           \<and> map_of fs' = (map_of fs)(t \<mapsto> File (jsonStringify h patched))"
  using assms unfolding patchJsonFile_def
  by (auto split: sum.splits option.splits dest: writeFileSync_result)

lemma patchJsonFile_throws:
  assumes "patchJsonFile h fs t p = (Some e, fs')" and "existsSync fs t"
  shows "fs' = fs"
  using assms unfolding patchJsonFile_def
  by (auto split: sum.splits option.splits)

lemma readFileSync_file: "map_of fs p = Some (File c) \<Longrightarrow> readFileSync fs p = Inr c"
  by (simp add: readFileSync_def)

text \<open>
  Claim C8, amended. A resolved file whose written path ends in \<open>.json.patch\<close> has been
  written (\<open>fs2\<close> is the file system after the write). When the target, the path without
  \<open>.patch\<close>, does not exist then, the step ends there: nothing is patched, and the patch
  file is on disk with its content. When the target exists, \<open>patchJsonFile\<close> runs on it.
  If it returns, the target and the patch were parsed, the target holds the text of the
  patched document, the patch file is deleted, and nothing else has changed. If it
  throws, the error is passed on, nothing has changed since the write, and the patch
  file is still on disk.
\<close>

theorem json_patch_step:
  assumes "rfOriginalName file \<noteq> ''_init''"
    and "ensureDir h fs file = (None, fs1)"
    and "writeFileSync h fs1 (writtenPath file) (writtenContent h file) = Inr fs2"
    and "endsWith (writtenPath file) ''.json.patch''"
  shows "(\<not> existsSync fs2 (dropEnd 6 (writtenPath file)) \<longrightarrow>
            writeOne h fs file = (None, fs2, [])
            \<and> map_of fs2 (writtenPath file) = Some (File (writtenContent h file)))
       \<and> (existsSync fs2 (dropEnd 6 (writtenPath file)) \<longrightarrow>
            (\<forall>fs3. patchJsonFile h fs2 (dropEnd 6 (writtenPath file)) (writtenPath file) = (None, fs3) \<longrightarrow>
                writeOne h fs file
                  = (None, AList.delete (writtenPath file) fs3,
                     [Log (''Patching '' @ dropEnd 6 (writtenPath file) @ ''...'')])
                \<and> (\<exists>targetText targetJson patchJson patched.
                      readFileSync fs2 (dropEnd 6 (writtenPath file)) = Inr targetText
                      \<and> jsonParse h targetText = Some targetJson
                      \<and> jsonParse h (writtenContent h file) = Some patchJson
                      \<and> patchDocument h targetJson patchJson = Inr patched
                      \<and> map_of (AList.delete (writtenPath file) fs3)
                          = (map_of fs2)(dropEnd 6 (writtenPath file) \<mapsto> File (jsonStringify h patched),
                                         writtenPath file := None)))
            \<and> (\<forall>e fs3. patchJsonFile h fs2 (dropEnd 6 (writtenPath file)) (writtenPath file) = (Some e, fs3) \<longrightarrow>
                writeOne h fs file
                  = (Some e, fs2, [Log (''Patching '' @ dropEnd 6 (writtenPath file) @ ''...'')])
                \<and> map_of fs2 (writtenPath file) = Some (File (writtenContent h file))))"
proof -
  let ?p = "writtenPath file"
  let ?t = "dropEnd 6 ?p"
  let ?log = "[Log (''Patching '' @ ?t @ ''...'')]"
  have differ: "?p \<noteq> ?t" using patch_target_differs [OF assms(4)] by simp
  have written: "map_of fs2 ?p = Some (File (writtenContent h file))"
    using writeFileSync_result [OF assms(3)] by simp
  have absent: "writeOne h fs file = (None, fs2, [])" if "\<not> existsSync fs2 ?t"
    using that assms by (simp add: writeOne_def Let_def)
  have thrown: "writeOne h fs file = (Some e, fs2, ?log)"
    if ex: "existsSync fs2 ?t" and pj: "patchJsonFile h fs2 ?t ?p = (Some e, fs3)" for e fs3
  proof -
    have "fs3 = fs2" using patchJsonFile_throws [OF pj ex] .
    with ex pj assms show ?thesis by (simp add: writeOne_def Let_def)
  qed
  have patched: "writeOne h fs file = (None, AList.delete ?p fs3, ?log)
      \<and> (\<exists>targetText targetJson patchJson patched.
            readFileSync fs2 ?t = Inr targetText \<and> jsonParse h targetText = Some targetJson
            \<and> jsonParse h (writtenContent h file) = Some patchJson
            \<and> patchDocument h targetJson patchJson = Inr patched
            \<and> map_of (AList.delete ?p fs3)
                = (map_of fs2)(?t \<mapsto> File (jsonStringify h patched), ?p := None))"
    if ex: "existsSync fs2 ?t" and pj: "patchJsonFile h fs2 ?t ?p = (None, fs3)" for fs3
  proof -
    from patchJsonFile_applies [OF pj ex] obtain targetText targetJson patchText patchJson patched
      where a: "readFileSync fs2 ?t = Inr targetText" "jsonParse h targetText = Some targetJson"
        "readFileSync fs2 ?p = Inr patchText" "jsonParse h patchText = Some patchJson"
        "patchDocument h targetJson patchJson = Inr patched"
        "map_of fs3 = (map_of fs2)(?t \<mapsto> File (jsonStringify h patched))"
      by blast
    from a(3) readFileSync_file [OF written] have pt: "patchText = writtenContent h file" by simp
    from a(6) written differ have "map_of fs3 ?p = Some (File (writtenContent h file))" by simp
    then have u: "unlinkSync fs3 ?p = Inr (AList.delete ?p fs3)" by (rule unlinkSync_file)
    from ex pj u assms have w: "writeOne h fs file = (None, AList.delete ?p fs3, ?log)"
      by (simp add: writeOne_def Let_def)
    have m: "map_of (AList.delete ?p fs3)
        = (map_of fs2)(?t \<mapsto> File (jsonStringify h patched), ?p := None)"
      using a(6) by (simp add: delete_conv')
    from w a(1,2) a(4) [unfolded pt] a(5) m show ?thesis by blast
  qed
  from written absent thrown patched show ?thesis by blast
qed


theorem json_patch_step_witness:
  "writeOne demoHost demoEmptyFs demoPatchFile
     = (None, demoEmptyFs @ [(''/work/appsettings.json.patch'', File demoPatchText)], [])
   \<and> map_of (demoEmptyFs @ [(''/work/appsettings.json.patch'', File demoPatchText)])
        ''/work/appsettings.json.patch'' = Some (File demoPatchText)
   \<and> writeOne demoHost demoFs demoPatchFile
     = (None, [(''/'', Dir), (''/work'', Dir), (''/work/appsettings.json'', File demoPatchedText)],
        [Log ''Patching /work/appsettings.json...''])
   \<and> writeOne demoHost demoBrokenFs demoPatchFile
     = (Some SyntaxError, demoBrokenFs @ [(''/work/appsettings.json.patch'', File demoPatchText)],
        [Log ''Patching /work/appsettings.json...''])"
proof -
  let ?written = "demoEmptyFs @ [(''/work/appsettings.json.patch'', File demoPatchText)]"
  let ?written2 = "demoFs @ [(''/work/appsettings.json.patch'', File demoPatchText)]"
  let ?written3 = "demoBrokenFs @ [(''/work/appsettings.json.patch'', File demoPatchText)]"
  let ?patched = "[(''/'', Dir), (''/work'', Dir),
      (''/work/appsettings.json'', File demoPatchedText),
      (''/work/appsettings.json.patch'', File demoPatchText)]"
  have n: "rfOriginalName demoPatchFile \<noteq> ''_init''" by code_simp
  have d1: "ensureDir demoHost demoEmptyFs demoPatchFile = (None, demoEmptyFs)" by code_simp
  have d2: "ensureDir demoHost demoFs demoPatchFile = (None, demoFs)" by code_simp
  have d3: "ensureDir demoHost demoBrokenFs demoPatchFile = (None, demoBrokenFs)" by code_simp
  have w1: "writeFileSync demoHost demoEmptyFs (writtenPath demoPatchFile) (writtenContent demoHost demoPatchFile)
      = Inr ?written" by code_simp
  have w2: "writeFileSync demoHost demoFs (writtenPath demoPatchFile) (writtenContent demoHost demoPatchFile)
      = Inr ?written2" by code_simp
  have w3: "writeFileSync demoHost demoBrokenFs (writtenPath demoPatchFile) (writtenContent demoHost demoPatchFile)
      = Inr ?written3" by code_simp
  have e: "endsWith (writtenPath demoPatchFile) ''.json.patch''" by code_simp
  have a1: "\<not> existsSync ?written (dropEnd 6 (writtenPath demoPatchFile))" by code_simp
  have a2: "existsSync ?written2 (dropEnd 6 (writtenPath demoPatchFile))" by code_simp
  have a3: "existsSync ?written3 (dropEnd 6 (writtenPath demoPatchFile))" by code_simp
  have p2: "patchJsonFile demoHost ?written2 (dropEnd 6 (writtenPath demoPatchFile)) (writtenPath demoPatchFile)
      = (None, ?patched)" by code_simp
  have p3: "patchJsonFile demoHost ?written3 (dropEnd 6 (writtenPath demoPatchFile)) (writtenPath demoPatchFile)
      = (Some SyntaxError, ?written3)" by code_simp
  have c1: "writtenContent demoHost demoPatchFile = demoPatchText" by code_simp
  have c2: "writtenPath demoPatchFile = ''/work/appsettings.json.patch''" by code_simp
  have c3: "dropEnd 6 ''/work/appsettings.json.patch'' = ''/work/appsettings.json''" by code_simp
  have c4: "AList.delete ''/work/appsettings.json.patch'' ?patched
      = [(''/'', Dir), (''/work'', Dir), (''/work/appsettings.json'', File demoPatchedText)]"
    by code_simp
  have c5: "''Patching '' @ ''/work/appsettings.json'' @ ''...'' = ''Patching /work/appsettings.json...''"
    by simp
  from json_patch_step [OF n d1 w1 e] a1
  have r1: "writeOne demoHost demoEmptyFs demoPatchFile = (None, ?written, [])"
    and r2: "map_of ?written (writtenPath demoPatchFile) = Some (File (writtenContent demoHost demoPatchFile))"
    by blast+
  from json_patch_step [OF n d2 w2 e] a2 p2
  have r3: "writeOne demoHost demoFs demoPatchFile
      = (None, AList.delete (writtenPath demoPatchFile) ?patched,
         [Log (''Patching '' @ dropEnd 6 (writtenPath demoPatchFile) @ ''...'')])"
    by blast
  from json_patch_step [OF n d3 w3 e] a3 p3
  have r4: "writeOne demoHost demoBrokenFs demoPatchFile
      = (Some SyntaxError, ?written3,
         [Log (''Patching '' @ dropEnd 6 (writtenPath demoPatchFile) @ ''...'')])"
    by blast
  from r2 have r2': "map_of ?written ''/work/appsettings.json.patch'' = Some (File demoPatchText)"
    unfolding c2 c1 .
  from r3 have r3': "writeOne demoHost demoFs demoPatchFile
     = (None, [(''/'', Dir), (''/work'', Dir), (''/work/appsettings.json'', File demoPatchedText)],
        [Log ''Patching /work/appsettings.json...''])"
    unfolding c2 c3 c4 c5 .
  from r4 have r4': "writeOne demoHost demoBrokenFs demoPatchFile
     = (Some SyntaxError, ?written3, [Log ''Patching /work/appsettings.json...''])"
    unfolding c2 c3 c5 .
  from r1 r2' r3' r4' show ?thesis by (intro conjI)
qed

text \<open>
  Claim C8 as it was stated, at a target that exists and is no JSON text: the patch is
  not applied and the patch file is not deleted. \<open>JSON.parse\<close> throws on the target, the
  error leaves the write loop, the target is what it was, and the patch file is on
  disk.
\<close>

theorem patch_target_exists_counterexample:
  "existsSync (demoBrokenFs @ [(''/work/appsettings.json.patch'', File demoPatchText)])
     ''/work/appsettings.json''
   \<and> writeOne demoHost demoBrokenFs demoPatchFile
     = (Some SyntaxError, demoBrokenFs @ [(''/work/appsettings.json.patch'', File demoPatchText)],
        [Log ''Patching /work/appsettings.json...''])
   \<and> readFileSync (demoBrokenFs @ [(''/work/appsettings.json.patch'', File demoPatchText)])
        ''/work/appsettings.json'' = Inr ''not json''
   \<and> existsSync (demoBrokenFs @ [(''/work/appsettings.json.patch'', File demoPatchText)])
        ''/work/appsettings.json.patch''"
  by code_simp

subsection \<open>Delete batch\<close>

lemma resolveDeletes_all:
  "resolveDeletes h cfg fs links projName aliases acc out = Resolved allFiles output \<Longrightarrow>
   allFiles = acc @ filter (existsSync fs) (batchPaths h cfg fs links projName aliases)"
proof (induction aliases arbitrary: acc out)
  case Nil
  then show ?case by simp
next
  case (Cons a aliases)
  from Cons.prems obtain gistFiles url to where t: "deleteTarget h links a = Inr (Some (gistFiles, url, to))"
    by (auto split: sum.splits option.splits)
  let ?sfx = "'' required by '' @ (if a \<noteq> [] then sq @ a @ sq @ '' '' else []) @ url"
  from Cons.prems t obtain basePath where b: "resolveBasePath h fs (Some to) ?sfx = Inr basePath"
    by (auto simp: Let_def split: sum.splits)
  let ?rs = "filter (existsSync fs) (resolvedPaths h cfg fs basePath projName to gistFiles)"
  from Cons.prems t b obtain out' where
    "resolveDeletes h cfg fs links projName aliases (acc @ ?rs) out' = Resolved allFiles output"
    by (auto simp: Let_def)
  from Cons.IH [OF this] t b show ?case by simp
qed

text \<open>
  Claim C9. When the registry is fetched and every identifier of a delete batch
  resolves, and none of the resolved destination paths exists on disk, \<open>deleteGists\<close>
  returns \<open>false\<close> after the report that no existing files were found, it throws no
  error, and the file system is unchanged.
\<close>

theorem delete_nothing_found:
  assumes "getGistApplyLinks h cfg = Inr links"
    and "resolveDeletes h cfg fs links (defaultProjName h projName0)
           (map (resolveAlias links) gistAliases) [] [] = Resolved allFiles output"
    and "\<forall>p\<in>set (batchPaths h cfg fs links (defaultProjName h projName0)
                      (map (resolveAlias links) gistAliases)). \<not> existsSync fs p"
  shows "deleteGists h cfg fs gistAliases projName0
           = (Inr False, fs,
              [Log (''Did not find any existing files from '' @ sq @ join '','' gistAliases
                    @ sq @ '' to delete'')])"
proof -
  from assms(3) have "filter (existsSync fs) (batchPaths h cfg fs links (defaultProjName h projName0)
                      (map (resolveAlias links) gistAliases)) = []"
    by (simp add: filter_empty_conv)
  with resolveDeletes_all [OF assms(2)] have "allFiles = []" by simp
  with assms(1,2) show ?thesis by (simp add: deleteGists_def Let_def)
qed

theorem delete_nothing_found_witness:
  "batchPaths demoHost demoConfig demoFs (demoLinks)
      ''Acme'' [''gone''] = [''/work/Acme/missing.txt'']
   \<and> \<not> existsSync demoFs ''/work/Acme/missing.txt''
   \<and> deleteGists demoHost demoConfig demoFs [''gone''] (Some ''Acme'')
       = (Inr False, demoFs,
          [Log (''Did not find any existing files from '' @ sq @ ''gone'' @ sq @ '' to delete'')])"
proof -
  have l: "getGistApplyLinks demoHost demoConfig = Inr demoLinks" by code_simp
  have r: "resolveDeletes demoHost demoConfig demoFs demoLinks (defaultProjName demoHost (Some ''Acme''))
             (map (resolveAlias demoLinks) [''gone'']) [] [] = Resolved [] []"
    by code_simp
  have b: "batchPaths demoHost demoConfig demoFs demoLinks (defaultProjName demoHost (Some ''Acme''))
             (map (resolveAlias demoLinks) [''gone'']) = [''/work/Acme/missing.txt'']"
    by code_simp
  have b': "batchPaths demoHost demoConfig demoFs demoLinks ''Acme'' [''gone''] = [''/work/Acme/missing.txt'']"
    by code_simp
  have n: "\<not> existsSync demoFs ''/work/Acme/missing.txt''" by code_simp
  from b n have a: "\<forall>p\<in>set (batchPaths demoHost demoConfig demoFs demoLinks (defaultProjName demoHost (Some ''Acme''))
             (map (resolveAlias demoLinks) [''gone''])). \<not> existsSync demoFs p"
    by simp
  have j: "join '','' [''gone''] = ''gone''" by simp
  from delete_nothing_found [OF l r a] b' n j show ?thesis by simp
qed

end
